theory Spec2Isabelle
  imports Main "HOL-Library.Word"
begin

section \<open>Strings and byte arrays\<close>

text \<open>
  An AssemblyScript \<^verbatim>\<open>string\<close> is a sequence of 16-bit code units, a
  \<^verbatim>\<open>Uint8Array\<close> a sequence of bytes. String literals of the source are
  written \<open>lit ''...''\<close>.
\<close>

type_synonym u8 = "8 word"
type_synonym u16 = "16 word"
type_synonym str = "u16 list"
type_synonym bytes = "u8 list"

definition lit :: "string \<Rightarrow> str" where
  "lit cs = map (\<lambda>c. of_nat (of_char c)) cs"

text \<open>
  \<^verbatim>\<open>s.split(".")\<close> with a one-unit separator: the pieces between the
  occurrences of the separator, empty pieces kept, so that a string with \<open>n\<close>
  occurrences gives \<open>n + 1\<close> pieces and the empty string gives one empty piece.
\<close>

fun split :: "u16 \<Rightarrow> str \<Rightarrow> str list" where
  "split sep [] = [[]]"
| "split sep (c # cs) =
     (if c = sep then [] # split sep cs
      else (case split sep cs of
              [] \<Rightarrow> [[c]]
            | s # ss \<Rightarrow> (c # s) # ss))"

text \<open>
  \<^verbatim>\<open>s.replace(search, replacement)\<close> with a one-unit search string: only
  the first occurrence is replaced.
\<close>

fun replace :: "u16 \<Rightarrow> str \<Rightarrow> str \<Rightarrow> str" where
  "replace c r [] = []"
| "replace c r (x # xs) = (if x = c then r @ xs else x # replace c r xs)"

definition dot :: u16 where
  "dot = 46"

definition backslash :: u16 where
  "backslash = 92"

section \<open>UTF-8 transcoding of the standard library\<close>

text \<open>
  \<^verbatim>\<open>String.UTF8.encode(str, nullTerminated)\<close>: one to four bytes for each
  code unit or surrogate pair, an unpaired surrogate encoded as it stands. With
  \<open>nullTerminated\<close> the output ends with a zero byte, and the encoding stops at
  the first zero code unit of the string. The shifts and masks of the library are written
  as \<open>div\<close> and \<open>mod\<close> on the unsigned values.
\<close>

definition utf8_bytes3 :: "nat \<Rightarrow> nat list" where
  "utf8_bytes3 c1 = [224 + c1 div 4096, 128 + (c1 div 64) mod 64, 128 + c1 mod 64]"

definition utf8_bytes4 :: "nat \<Rightarrow> nat list" where
  "utf8_bytes4 c =
     [240 + c div 262144, 128 + (c div 4096) mod 64, 128 + (c div 64) mod 64, 128 + c mod 64]"

fun encode_units :: "bool \<Rightarrow> nat list \<Rightarrow> nat list" where
  "encode_units nt [] = (if nt then [0] else [])"
| "encode_units nt (c1 # cs) =
     (if c1 < 128 then
        (if nt \<and> c1 = 0 then [c1] else c1 # encode_units nt cs)
      else if c1 < 2048 then
        (192 + c1 div 64) # (128 + c1 mod 64) # encode_units nt cs
      else
        (case cs of
           [] \<Rightarrow> utf8_bytes3 c1 @ encode_units nt []
         | c2 # cs' \<Rightarrow>
             if c1 div 1024 = 54 \<and> c2 div 1024 = 55 then
               utf8_bytes4 (65536 + (c1 mod 1024) * 1024 + c2 mod 1024) @ encode_units nt cs'
             else utf8_bytes3 c1 @ encode_units nt cs))"

declare encode_units.simps [simp del]

definition UTF8_encode :: "str \<Rightarrow> bool \<Rightarrow> bytes" where
  "UTF8_encode s nullTerminated = map of_nat (encode_units nullTerminated (map unat s))"

text \<open>
  \<^verbatim>\<open>String.UTF8.decode(buf, nullTerminated)\<close>: the inverse loop. It reads a
  lead byte and as many continuation bytes as the lead byte asks for, stops where the
  buffer ends inside a sequence, and with \<open>nullTerminated\<close> stops at the first
  zero lead byte. A value of 65536 or more is stored as a surrogate pair.
\<close>

definition store_unit :: "nat \<Rightarrow> nat list" where
  "store_unit u0 =
     (if u0 < 65536 then [u0]
      else [55296 + (u0 - 65536) div 1024, 56320 + (u0 - 65536) mod 1024])"

fun decode_units :: "bool \<Rightarrow> nat list \<Rightarrow> nat list" where
  "decode_units nt [] = []"
| "decode_units nt (u0 # bs) =
     (if u0 < 128 then
        (if nt \<and> u0 = 0 then [] else u0 # decode_units nt bs)
      else
        (case bs of
           [] \<Rightarrow> []
         | b1 # bs1 \<Rightarrow>
             if u0 div 32 mod 8 = 6 then
               ((u0 mod 32) * 64 + b1 mod 64) # decode_units nt bs1
             else
               (case bs1 of
                  [] \<Rightarrow> []
                | b2 # bs2 \<Rightarrow>
                    if u0 div 16 mod 16 = 14 then
                      store_unit ((u0 mod 16) * 4096 + (b1 mod 64) * 64 + b2 mod 64)
                        @ decode_units nt bs2
                    else
                      (case bs2 of
                         [] \<Rightarrow> []
                       | b3 # bs3 \<Rightarrow>
                           store_unit ((u0 mod 8) * 262144 + (b1 mod 64) * 4096
                                         + (b2 mod 64) * 64 + b3 mod 64)
                             @ decode_units nt bs3))))"

declare decode_units.simps [simp del]

definition UTF8_decode :: "bytes \<Rightarrow> bool \<Rightarrow> str" where
  "UTF8_decode buf nullTerminated = map of_nat (decode_units nullTerminated (map unat buf))"

section \<open>Request records\<close>

record CreateWalletInput =
  name :: str

record AddUserInput =
  userId :: str
  role :: str

record RemoveUserInput =
  userId :: str

record GenerateKeyInput =
  description :: str
  algorithm :: str

record RemoveKeyInput =
  keyId :: str

record ListKeysInput =
  user :: str

record KeyInput =
  format :: str
  keyData :: str
  algorithm :: str
  extractable :: bool
  usages :: "str list"

record ImportKeyInput =
  description :: str
  key :: KeyInput

record JWTHeader =
  alg :: str

record JWTGenerateInput =
  keyId :: str
  payload :: str

record JWTCheckInput =
  keyId :: str
  jwt :: str

section \<open>The imported modules and the host\<close>

text \<open>
  The entry points call three modules whose code is not part of the verified file: the
  \<^verbatim>\<open>Wallet\<close> class, the base64 package (\<^verbatim>\<open>encode\<close>,
  \<^verbatim>\<open>decode\<close>) and the serialiser \<^verbatim>\<open>JSON.stringify\<close>. Each entry
  point takes the functions it calls as parameters, named as in the source; the type
  \<open>'w\<close> is the wallet object. A wallet method that mutates the object returns its
  result together with the object after the call. The \<^verbatim>\<open>decode\<close> of the
  base64 package aborts the call on a string that it cannot decode, so it returns an
  option, \<open>None\<close> for the abort; the other imported functions are taken to return
  a value of their declared type.

  A call of an entry point runs against the persisted wallet slot (\<open>None\<close> when no
  wallet has been created) and returns the sequence of its effects, in order:
  \<^verbatim>\<open>Wallet.load()\<close>, \<^verbatim>\<open>wallet.save()\<close> with the object that is written,
  \<^verbatim>\<open>emit\<close> and \<^verbatim>\<open>revert\<close> with their message, the calls of
  \<^verbatim>\<open>decode\<close>, \<^verbatim>\<open>wallet.sign\<close> and \<^verbatim>\<open>wallet.verify\<close> with
  their arguments, and the abort of the call when \<^verbatim>\<open>decode\<close> aborts: nothing
  after it is executed.
\<close>

datatype 'w event =
    Load
  | Save 'w
  | Emit str
  | Revert str
  | Decode str
  | Sign str str
  | Verify str str str
  | Abort

section \<open>The entry points\<close>

definition generateKey ::
  "('w \<Rightarrow> str \<Rightarrow> str \<Rightarrow> bool \<times> 'w) \<Rightarrow> 'w option \<Rightarrow> GenerateKeyInput \<Rightarrow> 'w event list" where
  "generateKey Wallet_generateKey slot input =
     (case slot of
        None \<Rightarrow> [Load]
      | Some wallet \<Rightarrow>
          (case Wallet_generateKey wallet (GenerateKeyInput.description input)
                  (GenerateKeyInput.algorithm input) of
             (True, wallet') \<Rightarrow> [Load, Save wallet']
           | (False, wallet') \<Rightarrow> [Load]))"

definition removeKey ::
  "('w \<Rightarrow> str \<Rightarrow> bool \<times> 'w) \<Rightarrow> 'w option \<Rightarrow> RemoveKeyInput \<Rightarrow> 'w event list" where
  "removeKey Wallet_removeKey slot input =
     (case slot of
        None \<Rightarrow> [Load]
      | Some wallet \<Rightarrow>
          (case Wallet_removeKey wallet (RemoveKeyInput.keyId input) of
             (True, wallet') \<Rightarrow> [Load, Save wallet']
           | (False, wallet') \<Rightarrow> [Load]))"

definition importKey ::
  "('w \<Rightarrow> str \<Rightarrow> str \<Rightarrow> str \<Rightarrow> str \<Rightarrow> bool \<Rightarrow> str list \<Rightarrow> bool \<times> 'w)
     \<Rightarrow> 'w option \<Rightarrow> ImportKeyInput \<Rightarrow> 'w event list" where
  "importKey Wallet_importKey slot input =
     (case slot of
        None \<Rightarrow> [Load]
      | Some wallet \<Rightarrow>
          (let k = ImportKeyInput.key input;
               (ok, wallet') =
                  Wallet_importKey wallet (ImportKeyInput.description input)
                    (KeyInput.format k) (KeyInput.keyData k) (KeyInput.algorithm k)
                    (KeyInput.extractable k) (KeyInput.usages k)
           in [Load, Save wallet']))"

definition listKeys ::
  "('w \<Rightarrow> str \<Rightarrow> str list) \<Rightarrow> 'w option \<Rightarrow> ListKeysInput \<Rightarrow> 'w event list" where
  "listKeys Wallet_listKeys slot input =
     (case slot of
        None \<Rightarrow> [Load]
      | Some wallet \<Rightarrow> Load # map Emit (Wallet_listKeys wallet (ListKeysInput.user input)))"

definition addUser ::
  "('w \<Rightarrow> str \<Rightarrow> str \<Rightarrow> bool \<Rightarrow> bool \<times> 'w) \<Rightarrow> 'w option \<Rightarrow> AddUserInput \<Rightarrow> 'w event list" where
  "addUser Wallet_addUser slot input =
     (case slot of
        None \<Rightarrow> [Load]
      | Some wallet \<Rightarrow>
          (case Wallet_addUser wallet (AddUserInput.userId input) (AddUserInput.role input)
                  False of
             (True, wallet') \<Rightarrow> [Load, Save wallet']
           | (False, wallet') \<Rightarrow> [Load]))"

definition removeUser ::
  "('w \<Rightarrow> str \<Rightarrow> bool \<times> 'w) \<Rightarrow> 'w option \<Rightarrow> RemoveUserInput \<Rightarrow> 'w event list" where
  "removeUser Wallet_removeUser slot input =
     (case slot of
        None \<Rightarrow> [Load]
      | Some wallet \<Rightarrow>
          (case Wallet_removeUser wallet (RemoveUserInput.userId input) of
             (True, wallet') \<Rightarrow> [Load, Save wallet']
           | (False, wallet') \<Rightarrow> [Load]))"

definition createWallet ::
  "'w \<Rightarrow> ('w \<Rightarrow> str \<Rightarrow> 'w) \<Rightarrow> 'w option \<Rightarrow> CreateWalletInput \<Rightarrow> 'w event list" where
  "createWallet Wallet_new Wallet_create slot input =
     (case slot of
        Some existingWallet \<Rightarrow> [Load, Revert (lit ''Wallet does already exists.'')]
      | None \<Rightarrow> [Load, Save (Wallet_create Wallet_new (CreateWalletInput.name input))])"

text \<open>
  The header of every token, its base64 segment, the payload segment and the signing
  input (\<^verbatim>\<open>jwtPayload\<close> in the source).
\<close>

definition header :: JWTHeader where
  "header = \<lparr>alg = lit ''ECDSA''\<rparr>"

definition headerB64 :: "(JWTHeader \<Rightarrow> str) \<Rightarrow> (bytes \<Rightarrow> str) \<Rightarrow> str" where
  "headerB64 stringify encode = encode (UTF8_encode (stringify header) True)"

definition payloadB64 :: "(bytes \<Rightarrow> str) \<Rightarrow> str \<Rightarrow> str" where
  "payloadB64 encode p = encode (UTF8_encode p True)"

definition jwtPayload :: "(JWTHeader \<Rightarrow> str) \<Rightarrow> (bytes \<Rightarrow> str) \<Rightarrow> str \<Rightarrow> str" where
  "jwtPayload stringify encode p = headerB64 stringify encode @ lit ''.'' @ payloadB64 encode p"

definition generateJWT ::
  "(JWTHeader \<Rightarrow> str) \<Rightarrow> (bytes \<Rightarrow> str) \<Rightarrow> ('w \<Rightarrow> str \<Rightarrow> str \<Rightarrow> str option)
     \<Rightarrow> 'w option \<Rightarrow> JWTGenerateInput \<Rightarrow> 'w event list" where
  "generateJWT stringify encode Wallet_sign slot input =
     (case slot of
        None \<Rightarrow> [Load]
      | Some wallet \<Rightarrow>
          (let signingInput = jwtPayload stringify encode (JWTGenerateInput.payload input);
               kid = JWTGenerateInput.keyId input
           in [Load,
               Emit (lit ''Generating JWT: '' @ signingInput @ lit '' - with key: '' @ kid),
               Sign kid signingInput]
              @ (case Wallet_sign wallet kid signingInput of
                   None \<Rightarrow> [Revert (lit ''Failed to generate JWT'')]
                 | Some jwtSignature \<Rightarrow>
                     [Emit (lit ''JWT generated: '' @ (signingInput @ lit ''.'' @ jwtSignature))])))"

definition checkJWT ::
  "(str \<Rightarrow> bytes option) \<Rightarrow> ('w \<Rightarrow> str \<Rightarrow> str \<Rightarrow> str \<Rightarrow> bool)
     \<Rightarrow> 'w option \<Rightarrow> JWTCheckInput \<Rightarrow> 'w event list" where
  "checkJWT decode Wallet_verify slot input =
     (let items = split dot (JWTCheckInput.jwt input) in
      if length items \<noteq> 3 then [Revert (lit ''Invalid JWT format'')]
      else
        (case slot of
           None \<Rightarrow> [Load]
         | Some wallet \<Rightarrow>
             (case decode (items ! 0) of
                None \<Rightarrow> [Load, Decode (items ! 0), Abort]
              | Some jwtHeaderU8 \<Rightarrow>
                  (let jwtHeaderStr = replace backslash [] (UTF8_decode jwtHeaderU8 True) in
                   case decode (items ! 1) of
                     None \<Rightarrow>
                       [Load,
                        Decode (items ! 0),
                        Emit (lit ''jwtHeaderStr: '' @ jwtHeaderStr),
                        Decode (items ! 1),
                        Abort]
                   | Some jwtPayloadU8 \<Rightarrow>
                       (let jwtPayloadStr =
                              replace backslash [] (UTF8_decode jwtPayloadU8 True);
                            kid = JWTCheckInput.keyId input;
                            signed = items ! 0 @ lit ''.'' @ items ! 1
                        in [Load,
                            Decode (items ! 0),
                            Emit (lit ''jwtHeaderStr: '' @ jwtHeaderStr),
                            Decode (items ! 1),
                            Emit (lit ''jwtPayloadStr: '' @ jwtPayloadStr),
                            Verify kid signed (items ! 2)]
                           @ (if \<not> Wallet_verify wallet kid signed (items ! 2)
                              then [Revert (lit ''Invalid JWT signature'')]
                              else [Emit (lit ''Verification Successful'')]))))))"

text \<open>
  The persisted slot after a call: the object of the last \<^verbatim>\<open>save\<close>, or the
  slot as it was.
\<close>

fun persisted :: "'w option \<Rightarrow> 'w event list \<Rightarrow> 'w option" where
  "persisted slot [] = slot"
| "persisted slot (Save w # es) = persisted (Some w) es"
| "persisted slot (e # es) = persisted slot es"

text \<open>
  The outcome of a \<^verbatim>\<open>checkJWT\<close> call as its caller sees it: aborted inside
  \<^verbatim>\<open>decode\<close>, rejected with the message of the first \<^verbatim>\<open>revert\<close>,
  accepted when the success message was emitted, or a silent return.
\<close>

datatype verdict = Aborted | Rejected str | Accepted | Silent

fun reverts :: "'w event list \<Rightarrow> str list" where
  "reverts [] = []"
| "reverts (Revert msg # es) = msg # reverts es"
| "reverts (e # es) = reverts es"

definition verdict :: "'w event list \<Rightarrow> verdict" where
  "verdict es =
     (if Abort \<in> set es then Aborted
      else
        (case reverts es of
           msg # msgs \<Rightarrow> Rejected msg
         | [] \<Rightarrow> if Emit (lit ''Verification Successful'') \<in> set es then Accepted else Silent))"

text \<open>
  Three facts about a request: whether the token splits into three segments; whether
  \<^verbatim>\<open>decode\<close> returns on both the header and the payload segment of such a
  token; and what \<^verbatim>\<open>wallet.verify\<close> returns on the raw segments of such a
  token (\<open>None\<close> when the token has no three segments or there is no wallet to ask).
\<close>

definition well_formed :: "JWTCheckInput \<Rightarrow> bool" where
  "well_formed input \<longleftrightarrow> length (split dot (JWTCheckInput.jwt input)) = 3"

definition decodes :: "(str \<Rightarrow> bytes option) \<Rightarrow> JWTCheckInput \<Rightarrow> bool" where
  "decodes decode input \<longleftrightarrow>
     (let items = split dot (JWTCheckInput.jwt input)
      in length items = 3 \<and> decode (items ! 0) \<noteq> None \<and> decode (items ! 1) \<noteq> None)"

definition verified ::
  "('w \<Rightarrow> str \<Rightarrow> str \<Rightarrow> str \<Rightarrow> bool) \<Rightarrow> 'w option \<Rightarrow> JWTCheckInput \<Rightarrow> bool option" where
  "verified Wallet_verify slot input =
     (let items = split dot (JWTCheckInput.jwt input)
      in if length items \<noteq> 3 then None
         else
           map_option
             (\<lambda>wallet. Wallet_verify wallet (JWTCheckInput.keyId input)
                          (items ! 0 @ lit ''.'' @ items ! 1) (items ! 2))
             slot)"

section \<open>Instances of the imported modules\<close>

text \<open>
  To run the entry points on concrete requests the parameters need values. The codec
  below is base64 as RFC 4648 defines it, with the standard alphabet and \<open>=\<close> padding;
  the serialiser writes the one field of a header between braces. They stand for the
  imported packages in the examples only: every general statement below holds for
  arbitrary functions in their place. \<open>base64_decode\<close> gives the bytes of a string
  of whole quadruples; \<open>base64_decode_checked\<close> is the decoder as a call of it
  behaves, aborting on a string whose length is not a multiple of four or that holds a
  code unit above 127.
\<close>

definition base64_alphabet :: str where
  "base64_alphabet = lit ''ABCDEFGHIJKLMNOPQRSTUVWXYZabcdefghijklmnopqrstuvwxyz0123456789+/''"

definition pad :: u16 where
  "pad = 61"

definition sextet :: "nat \<Rightarrow> u16" where
  "sextet n = base64_alphabet ! (n mod 64)"

fun base64_encode :: "bytes \<Rightarrow> str" where
  "base64_encode (a # b # c # rest) =
     (let n = unat a * 65536 + unat b * 256 + unat c
      in sextet (n div 262144) # sextet (n div 4096) # sextet (n div 64) # sextet n
           # base64_encode rest)"
| "base64_encode [a, b] =
     (let n = unat a * 65536 + unat b * 256
      in [sextet (n div 262144), sextet (n div 4096), sextet (n div 64), pad])"
| "base64_encode [a] =
     (let n = unat a * 65536
      in [sextet (n div 262144), sextet (n div 4096), pad, pad])"
| "base64_encode [] = []"

fun index_of :: "u16 \<Rightarrow> str \<Rightarrow> nat" where
  "index_of c [] = 0"
| "index_of c (x # xs) = (if x = c then 0 else Suc (index_of c xs))"

definition sextet_value :: "u16 \<Rightarrow> nat" where
  "sextet_value c = index_of c base64_alphabet mod 64"

fun base64_decode :: "str \<Rightarrow> bytes" where
  "base64_decode (a # b # c # d # rest) =
     (let n = sextet_value a * 262144 + sextet_value b * 4096
                + sextet_value c * 64 + sextet_value d
      in (if c = pad then [of_nat (n div 65536)]
          else if d = pad then [of_nat (n div 65536), of_nat (n div 256)]
          else [of_nat (n div 65536), of_nat (n div 256), of_nat n])
         @ base64_decode rest)"
| "base64_decode s = []"

definition base64_decode_checked :: "str \<Rightarrow> bytes option" where
  "base64_decode_checked s =
     (if length s mod 4 \<noteq> 0 \<or> list_ex (\<lambda>c. 127 < c) s then None
      else Some (base64_decode s))"

definition JSON_stringify :: "JWTHeader \<Rightarrow> str" where
  "JSON_stringify h = [123, 34] @ lit ''alg'' @ [34, 58, 34] @ alg h @ [34, 125]"

section \<open>The key store of the wallet\<close>

text \<open>
  Modelled from the spec: the data of the \<^verbatim>\<open>Wallet\<close> class, whose file
  \<^verbatim>\<open>wallet/wallet.ts\<close> is not among the sources. A wallet has a name, key
  records and user records. A key record carries the key identifier, a description, the
  algorithm, the extractable flag, the usages and an opaque handle of the crypto
  provider; a user record carries the user identifier and the role.
\<close>

record KeyRecord =
  keyId :: str
  description :: str
  algorithm :: str
  extractable :: bool
  usages :: "str list"
  handle :: nat

record UserRecord =
  userId :: str
  role :: str

record Wallet =
  name :: str
  keys :: "KeyRecord list"
  users :: "UserRecord list"

text \<open>
  Modelled from the spec: \<^verbatim>\<open>Wallet.removeKey(keyId)\<close>, missing with the
  class. If the key is present, it deletes the record and returns success; if absent, it
  returns failure and changes nothing.
\<close>

definition KeyStore_removeKey :: "Wallet \<Rightarrow> str \<Rightarrow> bool \<times> Wallet" where
  "KeyStore_removeKey w k =
     (if k \<in> set (map KeyRecord.keyId (keys w))
      then (True, w\<lparr>keys := filter (\<lambda>r. KeyRecord.keyId r \<noteq> k) (keys w)\<rparr>)
      else (False, w))"

text \<open>
  A wallet holding one signing key, a wallet whose one key is of another algorithm, and
  a stand-in for the signing primitives of the
  crypto provider: a key that is present signs every message with the same string, and
  verification accepts exactly that string.
\<close>

definition acme :: Wallet where
  "acme =
     \<lparr>name = lit ''acme'',
      keys = [\<lparr>keyId = lit ''k1'', description = lit ''signing key'',
               algorithm = lit ''ECDSA'', extractable = False,
               usages = [lit ''sign'', lit ''verify''], handle = 1\<rparr>],
      users = []\<rparr>"

definition rsa_wallet :: Wallet where
  "rsa_wallet =
     \<lparr>name = lit ''rsa'',
      keys = [\<lparr>keyId = lit ''r1'', description = lit ''other key'',
               algorithm = lit ''RSA-PSS'', extractable = False,
               usages = [lit ''sign'', lit ''verify''], handle = 2\<rparr>],
      users = []\<rparr>"

definition example_sign :: "Wallet \<Rightarrow> str \<Rightarrow> str \<Rightarrow> str option" where
  "example_sign w k msg =
     (if k \<in> set (map KeyRecord.keyId (keys w)) then Some (lit ''c2lnbmVk'') else None)"

definition example_verify :: "Wallet \<Rightarrow> str \<Rightarrow> str \<Rightarrow> str \<Rightarrow> bool" where
  "example_verify w k msg sig \<longleftrightarrow> example_sign w k msg = Some sig"

section \<open>Splitting a token\<close>

lemma lit_dot: "lit ''.'' = [dot]"
  by (simp add: lit_def dot_def)

lemma split_not_Nil: "split sep s \<noteq> []"
  by (induction s) (auto split: list.splits)

lemma split_without: "sep \<notin> set s \<Longrightarrow> split sep s = [s]"
  by (induction s) auto

lemma split_append: "sep \<notin> set a \<Longrightarrow> split sep (a @ sep # b) = a # split sep b"
  by (induction a) auto

lemma length_split: "length (split sep s) = Suc (count_list s sep)"
  by (induction s) (auto split: list.splits simp: split_not_Nil)

lemma split_three:
  "dot \<notin> set h \<Longrightarrow> dot \<notin> set q \<Longrightarrow> dot \<notin> set s \<Longrightarrow>
   split dot (h @ lit ''.'' @ q @ lit ''.'' @ s) = [h, q, s]"
  by (simp add: lit_dot split_append split_without)

lemma split_first:
  "dot \<notin> set h \<Longrightarrow> split dot (h @ lit ''.'' @ rest) ! 0 = h"
  by (simp add: lit_dot split_append)

lemma generateJWT_signed:
  "Wallet_sign wallet k (jwtPayload stringify encode p) = Some sig \<Longrightarrow>
   generateJWT stringify encode Wallet_sign (Some wallet)
       \<lparr>JWTGenerateInput.keyId = k, payload = p\<rparr>
     = [Load,
        Emit (lit ''Generating JWT: '' @ jwtPayload stringify encode p
                @ lit '' - with key: '' @ k),
        Sign k (jwtPayload stringify encode p),
        Emit (lit ''JWT generated: '' @ (jwtPayload stringify encode p @ lit ''.'' @ sig))]"
  by (simp add: generateJWT_def Let_def)

lemma success_message_distinct:
  "lit ''jwtHeaderStr: '' @ a \<noteq> lit ''Verification Successful''"
  "lit ''jwtPayloadStr: '' @ b \<noteq> lit ''Verification Successful''"
  by (simp_all add: lit_def)

lemma checkJWT_decides:
  "verdict (checkJWT decode Wallet_verify slot input) =
     (let items = split dot (JWTCheckInput.jwt input) in
      if length items \<noteq> 3 then Rejected (lit ''Invalid JWT format'')
      else
        (case slot of
           None \<Rightarrow> Silent
         | Some wallet \<Rightarrow>
             if decode (items ! 0) = None \<or> decode (items ! 1) = None then Aborted
             else if Wallet_verify wallet (JWTCheckInput.keyId input)
                       (items ! 0 @ lit ''.'' @ items ! 1) (items ! 2)
             then Accepted else Rejected (lit ''Invalid JWT signature'')))"
  by (auto simp add: checkJWT_def verdict_def Let_def success_message_distinct
        split: option.split)

section \<open>UTF-8: decoding what was encoded\<close>

text \<open>
  Decoding an encoded string gives the string back. With a null terminator this needs
  a string without zero code units, since the encoder stops at the first of them.
\<close>

lemma div_lead: "r < b \<Longrightarrow> (b * k + r) div b = (k::nat)"
  by simp

lemma mod_lead: "r < b \<Longrightarrow> (b * k + r) mod b = (r::nat)"
  by simp

lemma two_lead:
  fixes q :: nat
  assumes "q < 32"
  shows "(192 + q) div 32 mod 8 = 6" "(192 + q) mod 32 = q"
  using assms div_lead [of q 32 6] mod_lead [of q 32 6] by simp_all

lemma three_lead:
  fixes q :: nat
  assumes "q < 16"
  shows "(224 + q) div 32 mod 8 \<noteq> 6" "(224 + q) div 16 mod 16 = 14" "(224 + q) mod 16 = q"
  using assms div_lead [of q 32 7] div_lead [of q 16 14] mod_lead [of q 16 14] by simp_all

lemma four_lead:
  fixes q :: nat
  assumes "q < 8"
  shows "(240 + q) div 32 mod 8 \<noteq> 6" "(240 + q) div 16 mod 16 \<noteq> 14" "(240 + q) mod 8 = q"
  using assms div_lead [of "16 + q" 32 7] div_lead [of q 16 15] mod_lead [of q 8 30]
  by (simp_all add: add.assoc [symmetric])

lemma cont_mod:
  fixes r :: nat
  shows "(128 + r mod 64) mod 64 = r mod 64"
  using mod_mult_self4 [of 64 2 "r mod 64"] by simp

lemma split3:
  fixes c :: nat
  shows "c div 4096 * 4096 + c div 64 mod 64 * 64 + c mod 64 = c"
proof -
  have e: "c div 64 div 64 = c div 4096"
    using div_mult2_eq [of c 64 64] by simp
  have "c div 64 div 64 * 64 + c div 64 mod 64 = c div 64" by simp
  then have "c div 4096 * 64 + c div 64 mod 64 = c div 64" by (simp only: e)
  then have "(c div 4096 * 64 + c div 64 mod 64) * 64 + c mod 64 = c" by simp
  then show ?thesis by (simp add: algebra_simps)
qed

lemma split4:
  fixes c :: nat
  shows "c div 262144 * 262144 + c div 4096 mod 64 * 4096 + c div 64 mod 64 * 64 + c mod 64 = c"
proof -
  have e: "c div 4096 div 64 = c div 262144"
    using div_mult2_eq [of c 4096 64] by simp
  have "c div 4096 div 64 * 64 + c div 4096 mod 64 = c div 4096" by simp
  then have "c div 262144 * 64 + c div 4096 mod 64 = c div 4096" by (simp only: e)
  then have "(c div 262144 * 64 + c div 4096 mod 64) * 4096 + c div 64 mod 64 * 64 + c mod 64
               = c div 4096 * 4096 + c div 64 mod 64 * 64 + c mod 64" by simp
  also have "\<dots> = c" by (rule split3)
  finally show ?thesis by (simp add: algebra_simps)
qed

lemma pair_value:
  fixes c1 c2 :: nat
  assumes "c1 div 1024 = 54" "c2 div 1024 = 55"
  defines "c \<equiv> 65536 + c1 mod 1024 * 1024 + c2 mod 1024"
  shows "c div 262144 < 8" "\<not> c < 65536"
    "55296 + (c - 65536) div 1024 = c1" "56320 + (c - 65536) mod 1024 = c2"
proof -
  have a: "c1 mod 1024 < 1024" "c2 mod 1024 < 1024" by simp_all
  have m: "c1 mod 1024 * 1024 \<le> 1023 * 1024" using a by simp
  have "c < 2097152" unfolding c_def using a m by linarith
  then show "c div 262144 < 8" by (simp add: less_mult_imp_div_less)
  show "\<not> c < 65536" unfolding c_def by simp
  have d: "c - 65536 = 1024 * (c1 mod 1024) + c2 mod 1024" unfolding c_def by simp
  have "(c - 65536) div 1024 = c1 mod 1024"
    unfolding d using div_lead [of "c2 mod 1024" 1024 "c1 mod 1024"] by simp
  moreover have "c1 = 54 * 1024 + c1 mod 1024"
    using div_mult_mod_eq [of c1 1024] assms(1) by simp
  ultimately show "55296 + (c - 65536) div 1024 = c1" by simp
  have "(c - 65536) mod 1024 = c2 mod 1024"
    unfolding d using mod_lead [of "c2 mod 1024" 1024 "c1 mod 1024"] by simp
  moreover have "c2 = 55 * 1024 + c2 mod 1024"
    using div_mult_mod_eq [of c2 1024] assms(2) by simp
  ultimately show "56320 + (c - 65536) mod 1024 = c2" by simp
qed


lemma decode_units_Nil: "decode_units nt [] = []"
  by (simp only: decode_units.simps)

lemma decode_units_terminator: "decode_units True (0 # bs) = []"
  by (simp only: decode_units.simps) simp

lemma decode_units_one:
  "c < 128 \<Longrightarrow> \<not> (nt \<and> c = 0) \<Longrightarrow> decode_units nt (c # bs) = c # decode_units nt bs"
  by (simp only: decode_units.simps if_True if_False)

lemma decode_two_gen:
  "\<not> u0 < 128 \<Longrightarrow> u0 div 32 mod 8 = 6 \<Longrightarrow>
   decode_units nt (u0 # b1 # bs) = (u0 mod 32 * 64 + b1 mod 64) # decode_units nt bs"
  by (simp only: decode_units.simps list.case if_False if_True simp_thms)

lemma decode_three_gen:
  "\<not> u0 < 128 \<Longrightarrow> u0 div 32 mod 8 \<noteq> 6 \<Longrightarrow> u0 div 16 mod 16 = 14 \<Longrightarrow>
   decode_units nt (u0 # b1 # b2 # bs)
     = store_unit (u0 mod 16 * 4096 + b1 mod 64 * 64 + b2 mod 64) @ decode_units nt bs"
  by (simp only: decode_units.simps list.case if_False if_True simp_thms)

lemma decode_four_gen:
  "\<not> u0 < 128 \<Longrightarrow> u0 div 32 mod 8 \<noteq> 6 \<Longrightarrow> u0 div 16 mod 16 \<noteq> 14 \<Longrightarrow>
   decode_units nt (u0 # b1 # b2 # b3 # bs)
     = store_unit (u0 mod 8 * 262144 + b1 mod 64 * 4096 + b2 mod 64 * 64 + b3 mod 64)
         @ decode_units nt bs"
  by (simp only: decode_units.simps list.case if_False if_True simp_thms)

lemma decode_units_two:
  assumes "128 \<le> c" "c < 2048"
  shows "decode_units nt ((192 + c div 64) # (128 + c mod 64) # bs) = c # decode_units nt bs"
proof -
  have q: "c div 64 < 32" using assms by (simp add: less_mult_imp_div_less)
  have "decode_units nt ((192 + c div 64) # (128 + c mod 64) # bs)
          = ((192 + c div 64) mod 32 * 64 + (128 + c mod 64) mod 64) # decode_units nt bs"
    by (rule decode_two_gen) (simp_all add: two_lead [OF q])
  also have "(192 + c div 64) mod 32 * 64 + (128 + c mod 64) mod 64 = c div 64 * 64 + c mod 64"
    by (simp only: two_lead [OF q] cont_mod)
  also have "\<dots> = c" by simp
  finally show ?thesis .
qed

lemma decode_units_three:
  assumes "2048 \<le> c" "c < 65536"
  shows "decode_units nt (utf8_bytes3 c @ bs) = c # decode_units nt bs"
proof -
  have q: "c div 4096 < 16" using assms by (simp add: less_mult_imp_div_less)
  have "decode_units nt (utf8_bytes3 c @ bs)
          = decode_units nt ((224 + c div 4096) # (128 + c div 64 mod 64) # (128 + c mod 64) # bs)"
    by (simp only: utf8_bytes3_def append.simps)
  also have "\<dots> = store_unit ((224 + c div 4096) mod 16 * 4096
                 + (128 + c div 64 mod 64) mod 64 * 64 + (128 + c mod 64) mod 64)
               @ decode_units nt bs"
    by (rule decode_three_gen) (simp_all add: three_lead [OF q])
  also have "(224 + c div 4096) mod 16 * 4096
                 + (128 + c div 64 mod 64) mod 64 * 64 + (128 + c mod 64) mod 64
             = c div 4096 * 4096 + c div 64 mod 64 * 64 + c mod 64"
    by (simp only: three_lead [OF q] cont_mod mod_mod_trivial)
  also have "\<dots> = c" by (rule split3)
  also have "store_unit c = [c]" using assms by (simp add: store_unit_def)
  finally show ?thesis by (simp only: append.simps)
qed

lemma decode_units_four:
  assumes "c1 div 1024 = 54" "c2 div 1024 = 55"
  shows "decode_units nt (utf8_bytes4 (65536 + c1 mod 1024 * 1024 + c2 mod 1024) @ bs)
           = c1 # c2 # decode_units nt bs"
proof -
  define c where "c = 65536 + c1 mod 1024 * 1024 + c2 mod 1024"
  note pv = pair_value [OF assms, folded c_def]
  have "decode_units nt (utf8_bytes4 c @ bs)
          = decode_units nt ((240 + c div 262144) # (128 + c div 4096 mod 64)
              # (128 + c div 64 mod 64) # (128 + c mod 64) # bs)"
    by (simp only: utf8_bytes4_def append.simps)
  also have "\<dots> = store_unit ((240 + c div 262144) mod 8 * 262144
                 + (128 + c div 4096 mod 64) mod 64 * 4096
                 + (128 + c div 64 mod 64) mod 64 * 64 + (128 + c mod 64) mod 64)
               @ decode_units nt bs"
    by (rule decode_four_gen) (simp_all add: four_lead [OF pv(1)])
  also have "(240 + c div 262144) mod 8 * 262144
                 + (128 + c div 4096 mod 64) mod 64 * 4096
                 + (128 + c div 64 mod 64) mod 64 * 64 + (128 + c mod 64) mod 64
             = c div 262144 * 262144 + c div 4096 mod 64 * 4096 + c div 64 mod 64 * 64 + c mod 64"
    by (simp only: four_lead [OF pv(1)] cont_mod mod_mod_trivial)
  also have "\<dots> = c" by (rule split4)
  also have "store_unit c = [c1, c2]"
    using pv by (simp add: store_unit_def)
  finally show ?thesis by (simp only: append.simps c_def)
qed

lemma encode_units_one:
  "c1 < 128 \<Longrightarrow> \<not> (nt \<and> c1 = 0) \<Longrightarrow> encode_units nt (c1 # cs) = c1 # encode_units nt cs"
  by (subst encode_units.simps) (simp only: if_True if_False)

lemma encode_units_two:
  "\<not> c1 < 128 \<Longrightarrow> c1 < 2048 \<Longrightarrow>
   encode_units nt (c1 # cs) = (192 + c1 div 64) # (128 + c1 mod 64) # encode_units nt cs"
  by (subst encode_units.simps) (simp only: if_True if_False)

lemma encode_units_last:
  "\<not> c1 < 128 \<Longrightarrow> \<not> c1 < 2048 \<Longrightarrow>
   encode_units nt [c1] = utf8_bytes3 c1 @ encode_units nt []"
  by (subst encode_units.simps) (simp only: if_True if_False list.case)

lemma encode_units_pair:
  "\<not> c1 < 128 \<Longrightarrow> \<not> c1 < 2048 \<Longrightarrow> c1 div 1024 = 54 \<and> c2 div 1024 = 55 \<Longrightarrow>
   encode_units nt (c1 # c2 # cs)
     = utf8_bytes4 (65536 + c1 mod 1024 * 1024 + c2 mod 1024) @ encode_units nt cs"
  by (subst encode_units.simps) (simp only: if_True if_False list.case simp_thms)

lemma encode_units_three:
  "\<not> c1 < 128 \<Longrightarrow> \<not> c1 < 2048 \<Longrightarrow> \<not> (c1 div 1024 = 54 \<and> c2 div 1024 = 55) \<Longrightarrow>
   encode_units nt (c1 # c2 # cs) = utf8_bytes3 c1 @ encode_units nt (c2 # cs)"
  by (subst encode_units.simps) (simp only: if_True if_False list.case simp_thms)

lemma decode_encode_units:
  "\<forall>c\<in>set cs. c < 65536 \<Longrightarrow> (nt \<Longrightarrow> 0 \<notin> set cs) \<Longrightarrow>
   decode_units nt (encode_units nt cs) = cs"
proof (induction nt cs rule: encode_units.induct)
  case (1 nt)
  show ?case
    by (cases nt) (simp_all add: encode_units.simps decode_units_Nil decode_units_terminator)
next
  case (2 nt c1 cs)
  have c1: "c1 < 65536" and rest: "\<forall>c\<in>set cs. c < 65536"
    using "2.prems"(1) by simp_all
  have nz: "\<not> (nt \<and> c1 = 0)" and nzs: "nt \<Longrightarrow> 0 \<notin> set cs"
    using "2.prems"(2) by auto
  consider (one) "c1 < 128"
    | (two) "\<not> c1 < 128" "c1 < 2048"
    | (last) "\<not> c1 < 128" "\<not> c1 < 2048" "cs = []"
    | (pair) c2 cs' where "\<not> c1 < 128" "\<not> c1 < 2048" "cs = c2 # cs'"
        "c1 div 1024 = 54 \<and> c2 div 1024 = 55"
    | (three) c2 cs' where "\<not> c1 < 128" "\<not> c1 < 2048" "cs = c2 # cs'"
        "\<not> (c1 div 1024 = 54 \<and> c2 div 1024 = 55)"
    by (cases cs) auto
  then show ?case
  proof cases
    case one
    have ih: "decode_units nt (encode_units nt cs) = cs"
      using "2.IH"(1) [OF one nz rest] nzs by simp
    show ?thesis
      by (simp only: encode_units_one [OF one nz] decode_units_one [OF one nz] ih)
  next
    case two
    have ih: "decode_units nt (encode_units nt cs) = cs"
      using "2.IH"(2) [OF two rest] nzs by simp
    have ge: "128 \<le> c1" using two(1) by simp
    show ?thesis
      by (simp only: encode_units_two [OF two] decode_units_two [OF ge two(2)] ih)
  next
    case last
    have ih: "decode_units nt (encode_units nt []) = []"
      using "2.IH"(3) [OF last] by simp
    have ge: "2048 \<le> c1" using last(2) by simp
    show ?thesis
      unfolding last(3)
      by (simp only: encode_units_last [OF last(1,2)] decode_units_three [OF ge c1] ih)
  next
    case pair
    have ih: "decode_units nt (encode_units nt cs') = cs'"
      using "2.IH"(4) [OF pair] rest nzs pair(3) by simp
    show ?thesis
      unfolding pair(3)
      by (simp only: encode_units_pair [OF pair(1,2,4)]
            decode_units_four [OF conjunct1 [OF pair(4)] conjunct2 [OF pair(4)]] ih)
  next
    case three
    have ih: "decode_units nt (encode_units nt cs) = cs"
      using "2.IH"(5) [OF three] rest nzs by simp
    have ge: "2048 \<le> c1" using three(2) by simp
    show ?thesis
      unfolding three(3)
      by (simp only: encode_units_three [OF three(1,2,4)] decode_units_three [OF ge c1]
            ih [unfolded three(3)])
  qed
qed

lemma cont_bound: "(r::nat) mod 64 < 128"
  by (rule less_trans [where y = 64]) simp_all

lemma utf8_bytes3_bound: "c < 65536 \<Longrightarrow> \<forall>b\<in>set (utf8_bytes3 c). b < 256"
proof -
  assume "c < 65536"
  then have "c div 4096 < 16" by (simp add: less_mult_imp_div_less)
  then show ?thesis by (simp add: utf8_bytes3_def cont_bound)
qed

lemma utf8_bytes4_bound: "c < 2097152 \<Longrightarrow> \<forall>b\<in>set (utf8_bytes4 c). b < 256"
proof -
  assume "c < 2097152"
  then have "c div 262144 < 8" by (simp add: less_mult_imp_div_less)
  then show ?thesis by (simp add: utf8_bytes4_def cont_bound)
qed

lemma pair_bound:
  fixes c1 c2 :: nat
  shows "65536 + c1 mod 1024 * 1024 + c2 mod 1024 < 2097152"
proof -
  have "c1 mod 1024 < 1024" "c2 mod 1024 < 1024" by simp_all
  moreover from this have "c1 mod 1024 * 1024 \<le> 1023 * 1024" by simp
  ultimately show ?thesis by linarith
qed

lemma encode_units_bytes:
  "\<forall>c\<in>set cs. c < 65536 \<Longrightarrow> \<forall>b\<in>set (encode_units nt cs). b < 256"
proof (induction nt cs rule: encode_units.induct)
  case (1 nt)
  show ?case by (simp add: encode_units.simps)
next
  case (2 nt c1 cs)
  have c1: "c1 < 65536" and rest: "\<forall>c\<in>set cs. c < 65536"
    using "2.prems"(1) by simp_all
  consider (one) "c1 < 128"
    | (two) "\<not> c1 < 128" "c1 < 2048"
    | (last) "\<not> c1 < 128" "\<not> c1 < 2048" "cs = []"
    | (pair) c2 cs' where "\<not> c1 < 128" "\<not> c1 < 2048" "cs = c2 # cs'"
        "c1 div 1024 = 54 \<and> c2 div 1024 = 55"
    | (three) c2 cs' where "\<not> c1 < 128" "\<not> c1 < 2048" "cs = c2 # cs'"
        "\<not> (c1 div 1024 = 54 \<and> c2 div 1024 = 55)"
    by (cases cs) auto
  then show ?case
  proof cases
    case one
    show ?thesis
    proof (cases "nt \<and> c1 = 0")
      case True
      then have "encode_units nt (c1 # cs) = [0]"
        by (subst encode_units.simps) simp
      then show ?thesis by simp
    next
      case False
      have "\<forall>b\<in>set (encode_units nt cs). b < 256"
        using "2.IH"(1) [OF one False rest] .
      then show ?thesis
        using one by (simp add: encode_units_one [OF one False])
    qed
  next
    case two
    have "\<forall>b\<in>set (encode_units nt cs). b < 256"
      using "2.IH"(2) [OF two rest] .
    moreover have "c1 div 64 < 32" using two(2) by (simp add: less_mult_imp_div_less)
    ultimately show ?thesis
      by (simp add: encode_units_two [OF two] cont_bound)
  next
    case last
    have "\<forall>b\<in>set (encode_units nt []). b < 256"
      using "2.IH"(3) [OF last] by simp
    then show ?thesis
      unfolding last(3) using utf8_bytes3_bound [OF c1]
      by (auto simp add: encode_units_last [OF last(1,2)])
  next
    case pair
    have "\<forall>b\<in>set (encode_units nt cs'). b < 256"
      using "2.IH"(4) [OF pair] rest pair(3) by simp
    then show ?thesis
      unfolding pair(3) using utf8_bytes4_bound [OF pair_bound [of c1 c2]]
      by (auto simp add: encode_units_pair [OF pair(1,2,4)])
  next
    case three
    have "\<forall>b\<in>set (encode_units nt cs). b < 256"
      using "2.IH"(5) [OF three] rest by simp
    then show ?thesis
      unfolding three(3) using utf8_bytes3_bound [OF c1]
      by (auto simp add: encode_units_three [OF three(1,2,4)])
  qed
qed

lemma map_unat_of_nat_bytes:
  "\<forall>b\<in>set bs. b < 256 \<Longrightarrow> map unat (map of_nat bs :: u8 list) = bs"
  by (induction bs) (simp_all add: unat_of_nat)

lemma map_of_nat_unat: "map of_nat (map unat s) = (s :: 'a::len word list)"
  by (induction s) simp_all

lemma units_bound: "\<forall>c\<in>set (map unat (s :: str)). c < 65536"
proof
  fix c assume "c \<in> set (map unat s)"
  then obtain w :: u16 where "c = unat w" by auto
  moreover have "unat w < 2 ^ LENGTH(16)" by (rule unsigned_less)
  ultimately show "c < 65536" by simp
qed

lemma zero_in_units: "0 \<notin> set (s :: str) \<Longrightarrow> 0 \<notin> set (map unat s)"
  by (induction s) (auto simp: unat_eq_0)

lemma UTF8_roundtrip:
  "(nt \<Longrightarrow> 0 \<notin> set p) \<Longrightarrow> UTF8_decode (UTF8_encode p nt) nt = p"
proof -
  assume nz: "nt \<Longrightarrow> 0 \<notin> set p"
  have b: "\<forall>b\<in>set (encode_units nt (map unat p)). b < 256"
    by (rule encode_units_bytes [OF units_bound])
  have "decode_units nt (encode_units nt (map unat p)) = map unat p"
    by (rule decode_encode_units [OF units_bound]) (rule zero_in_units [OF nz])
  then show ?thesis
    by (simp only: UTF8_decode_def UTF8_encode_def map_unat_of_nat_bytes [OF b] map_of_nat_unat)
qed

text \<open>
  A null-terminated encoding is the plain encoding of the string up to its first zero
  code unit, followed by a zero byte; decoding it with the terminator gives that prefix.
\<close>

lemma encode_units_zero: "encode_units True (0 # cs) = [0]"
  by (subst encode_units.simps) simp

lemma encode_units_cut:
  "encode_units True cs = encode_units True (takeWhile (\<lambda>c. c \<noteq> 0) cs)"
proof (induction "True" cs rule: encode_units.induct)
  case 1
  show ?case by simp
next
  case (2 c1 cs)
  consider (zero) "c1 = 0"
    | (one) "c1 < 128" "c1 \<noteq> 0"
    | (two) "\<not> c1 < 128" "c1 < 2048"
    | (last) "\<not> c1 < 128" "\<not> c1 < 2048" "cs = []"
    | (pair) c2 cs' where "\<not> c1 < 128" "\<not> c1 < 2048" "cs = c2 # cs'"
        "c1 div 1024 = 54 \<and> c2 div 1024 = 55"
    | (three) c2 cs' where "\<not> c1 < 128" "\<not> c1 < 2048" "cs = c2 # cs'"
        "\<not> (c1 div 1024 = 54 \<and> c2 div 1024 = 55)"
    by (cases cs) auto
  then show ?case
  proof cases
    case zero
    then show ?thesis by (simp add: encode_units_zero encode_units.simps(1))
  next
    case one
    have nz: "\<not> (True \<and> c1 = 0)" using one(2) by simp
    have ih: "encode_units True cs = encode_units True (takeWhile (\<lambda>c. c \<noteq> 0) cs)"
      using "2.hyps"(1) [OF one(1) nz] .
    show ?thesis
      using one(2) ih by (simp add: encode_units_one [OF one(1) nz])
  next
    case two
    have ih: "encode_units True cs = encode_units True (takeWhile (\<lambda>c. c \<noteq> 0) cs)"
      using "2.hyps"(2) [OF two] .
    have nz: "c1 \<noteq> 0" using two(1) by auto
    show ?thesis
      using nz ih by (simp add: encode_units_two [OF two])
  next
    case last
    have nz: "c1 \<noteq> 0" using last(1) by auto
    show ?thesis unfolding last(3) using nz by simp
  next
    case pair
    have ih: "encode_units True cs' = encode_units True (takeWhile (\<lambda>c. c \<noteq> 0) cs')"
      using "2.hyps"(4) [OF pair] .
    have nz: "c1 \<noteq> 0" "c2 \<noteq> 0" using pair(1,4) by auto
    show ?thesis
      unfolding pair(3) using nz ih by (simp add: encode_units_pair [OF pair(1,2,4)])
  next
    case three
    have ih: "encode_units True (c2 # cs')
                = encode_units True (takeWhile (\<lambda>c. c \<noteq> 0) (c2 # cs'))"
      using "2.hyps"(5) [OF three] three(3) by simp
    have nz: "c1 \<noteq> 0" using three(1) by auto
    show ?thesis
    proof (cases "c2 = 0")
      case True
      have "encode_units True (c1 # c2 # cs') = utf8_bytes3 c1 @ [0]"
        unfolding True
        by (simp add: encode_units_three [OF three(1,2) three(4) [unfolded True]]
              encode_units_zero)
      moreover have "encode_units True [c1] = utf8_bytes3 c1 @ [0]"
        by (simp add: encode_units_last [OF three(1,2)] encode_units.simps(1))
      ultimately show ?thesis
        unfolding three(3) using nz True by simp
    next
      case False
      show ?thesis
        unfolding three(3) using nz False ih
        by (simp add: encode_units_three [OF three(1,2,4)])
    qed
  qed
qed

lemma encode_units_terminated:
  "0 \<notin> set cs \<Longrightarrow> encode_units True cs = encode_units False cs @ [0]"
proof (induction "False" cs rule: encode_units.induct)
  case 1
  show ?case by (simp add: encode_units.simps(1))
next
  case (2 c1 cs)
  have nz: "c1 \<noteq> 0" and nzs: "0 \<notin> set cs" using "2.prems" by auto
  consider (one) "c1 < 128"
    | (two) "\<not> c1 < 128" "c1 < 2048"
    | (last) "\<not> c1 < 128" "\<not> c1 < 2048" "cs = []"
    | (pair) c2 cs' where "\<not> c1 < 128" "\<not> c1 < 2048" "cs = c2 # cs'"
        "c1 div 1024 = 54 \<and> c2 div 1024 = 55"
    | (three) c2 cs' where "\<not> c1 < 128" "\<not> c1 < 2048" "cs = c2 # cs'"
        "\<not> (c1 div 1024 = 54 \<and> c2 div 1024 = 55)"
    by (cases cs) auto
  then show ?case
  proof cases
    case one
    have f: "\<not> (False \<and> c1 = 0)" and t: "\<not> (True \<and> c1 = 0)" using nz by simp_all
    have ih: "encode_units True cs = encode_units False cs @ [0]"
      using "2.hyps"(1) [OF one f nzs] .
    show ?thesis
      by (simp add: encode_units_one [OF one f] encode_units_one [OF one t] ih)
  next
    case two
    have ih: "encode_units True cs = encode_units False cs @ [0]"
      using "2.hyps"(2) [OF two nzs] .
    show ?thesis
      by (simp add: encode_units_two [OF two] ih)
  next
    case last
    show ?thesis
      unfolding last(3)
      by (simp add: encode_units_last [OF last(1,2)] encode_units.simps(1))
  next
    case pair
    have ih: "encode_units True cs' = encode_units False cs' @ [0]"
      using "2.hyps"(4) [OF pair] nzs pair(3) by simp
    show ?thesis
      unfolding pair(3) by (simp add: encode_units_pair [OF pair(1,2,4)] ih)
  next
    case three
    have ih: "encode_units True (c2 # cs') = encode_units False (c2 # cs') @ [0]"
      using "2.hyps"(5) [OF three] nzs three(3) by simp
    show ?thesis
      unfolding three(3) by (simp add: encode_units_three [OF three(1,2,4)] ih)
  qed
qed

lemma takeWhile_units:
  "takeWhile (\<lambda>c. c \<noteq> 0) (map unat (s :: str)) = map unat (takeWhile (\<lambda>c. c \<noteq> 0) s)"
  by (induction s) (simp_all add: unat_eq_0)

lemma UTF8_encode_cut:
  "UTF8_encode p True = UTF8_encode (takeWhile (\<lambda>c. c \<noteq> 0) p) True"
  unfolding UTF8_encode_def
  by (subst encode_units_cut) (simp only: takeWhile_units)

lemma cut_no_zero: "0 \<notin> set (takeWhile (\<lambda>c. c \<noteq> 0) (p :: str))"
  using set_takeWhileD by fastforce

lemma UTF8_encode_terminated:
  "UTF8_encode p True = UTF8_encode (takeWhile (\<lambda>c. c \<noteq> 0) p) False @ [0]"
proof -
  have "UTF8_encode (takeWhile (\<lambda>c. c \<noteq> 0) p) True
          = UTF8_encode (takeWhile (\<lambda>c. c \<noteq> 0) p) False @ [0]"
    unfolding UTF8_encode_def
    by (simp add: encode_units_terminated [OF zero_in_units [OF cut_no_zero]])
  then show ?thesis by (simp only: UTF8_encode_cut [of p])
qed

lemma UTF8_decode_terminated:
  "UTF8_decode (UTF8_encode p True) True = takeWhile (\<lambda>c. c \<noteq> 0) p"
proof -
  have "UTF8_decode (UTF8_encode (takeWhile (\<lambda>c. c \<noteq> 0) p) True) True
          = takeWhile (\<lambda>c. c \<noteq> 0) p"
    by (rule UTF8_roundtrip) (rule cut_no_zero)
  then show ?thesis by (simp only: UTF8_encode_cut [of p])
qed

lemma cut_all: "0 \<notin> set (p :: str) \<Longrightarrow> takeWhile (\<lambda>c. c \<noteq> 0) p = p"
  by (rule takeWhile_eq_all_conv [THEN iffD2]) auto

section \<open>Running the model on the example instances\<close>

lemmas run_defs =
  lit_def dot_def pad_def sextet_def sextet_value_def base64_alphabet_def
  UTF8_encode_def UTF8_decode_def encode_units.simps decode_units.simps
  utf8_bytes3_def utf8_bytes4_def store_unit_def
  JSON_stringify_def header_def headerB64_def payloadB64_def jwtPayload_def

lemma example_header: "headerB64 JSON_stringify base64_encode = lit ''eyJhbGciOiJFQ0RTQSJ9AA==''"
  by (simp add: run_defs)

lemma example_payload: "payloadB64 base64_encode (lit ''hello'') = lit ''aGVsbG8A''"
  by (simp add: run_defs)

lemma example_signing_input:
  "jwtPayload JSON_stringify base64_encode (lit ''hello'') = lit ''eyJhbGciOiJFQ0RTQSJ9AA==.aGVsbG8A''"
  unfolding jwtPayload_def example_header example_payload by (simp add: lit_def)

lemma example_signature:
  "example_sign acme (lit ''k1'') msg = Some (lit ''c2lnbmVk'')"
  by (simp add: example_sign_def acme_def lit_def)

lemma example_header_decoded:
  "map_option (\<lambda>b. UTF8_decode b True) (base64_decode_checked (lit ''eyJhbGciOiJFQ0RTQSJ9AA==''))
     = Some (JSON_stringify \<lparr>alg = lit ''ECDSA''\<rparr>)"
  by (simp add: base64_decode_checked_def run_defs)

lemma other_header_decoded:
  "map_option (\<lambda>b. UTF8_decode b True) (base64_decode_checked (lit ''eyJhbGciOiJSU0EtUFNTIn0A''))
     = Some (JSON_stringify \<lparr>alg = lit ''RSA-PSS''\<rparr>)"
  by (simp add: base64_decode_checked_def run_defs)

section \<open>Wallet creation and the missing wallet\<close>

text \<open>
  C6. When a wallet already exists, \<^verbatim>\<open>createWallet\<close> reverts with the
  message "Wallet does already exists." and saves nothing: the persisted wallet, with its
  name, keys and users, is the object that was there before the call.
\<close>

theorem createWallet_exactly_once:
  "createWallet Wallet_new Wallet_create (Some w) input
     = [Load, Revert (lit ''Wallet does already exists.'')]
   \<and> persisted (Some w) (createWallet Wallet_new Wallet_create (Some w) input) = Some w"
  by (simp add: createWallet_def)

text \<open>
  C9. With no wallet in the slot, each of \<^verbatim>\<open>generateKey\<close>,
  \<^verbatim>\<open>removeKey\<close>, \<^verbatim>\<open>importKey\<close>, \<^verbatim>\<open>listKeys\<close>,
  \<^verbatim>\<open>addUser\<close>, \<^verbatim>\<open>removeUser\<close> and \<^verbatim>\<open>generateJWT\<close>
  only loads and returns: no revert, no emitted message, no save, and the slot stays
  empty.
\<close>

theorem no_wallet_silent_return:
  "generateKey Wallet_generateKey None i1 = [Load]
   \<and> removeKey Wallet_removeKey None i2 = [Load]
   \<and> importKey Wallet_importKey None i3 = [Load]
   \<and> listKeys Wallet_listKeys None i4 = [Load]
   \<and> addUser Wallet_addUser None i5 = [Load]
   \<and> removeUser Wallet_removeUser None i6 = [Load]
   \<and> generateJWT stringify encode Wallet_sign None i7 = [Load]
   \<and> persisted None [Load] = None"
  by (simp add: generateKey_def removeKey_def importKey_def listKeys_def addUser_def
        removeUser_def generateJWT_def)

section \<open>Key operations\<close>

text \<open>
  C7. For a key identifier that no record of the wallet carries,
  \<^verbatim>\<open>removeKey\<close> only loads the wallet: it does not revert, it does not save,
  and the persisted wallet is unchanged. The wallet method is the one modelled from the
  design document.
\<close>

theorem removeKey_absent_key:
  "RemoveKeyInput.keyId input \<notin> set (map KeyRecord.keyId (keys w)) \<Longrightarrow>
   removeKey KeyStore_removeKey (Some w) input = [Load]
   \<and> persisted (Some w) (removeKey KeyStore_removeKey (Some w) input) = Some w"
  by (simp add: removeKey_def KeyStore_removeKey_def)

theorem removeKey_absent_key_witness:
  "RemoveKeyInput.keyId \<lparr>RemoveKeyInput.keyId = lit ''k2''\<rparr> \<notin> set (map KeyRecord.keyId (keys acme))
   \<and> removeKey KeyStore_removeKey (Some acme) \<lparr>RemoveKeyInput.keyId = lit ''k2''\<rparr> = [Load]
   \<and> persisted (Some acme)
         (removeKey KeyStore_removeKey (Some acme) \<lparr>RemoveKeyInput.keyId = lit ''k2''\<rparr>)
       = Some acme"
proof -
  have h: "RemoveKeyInput.keyId \<lparr>RemoveKeyInput.keyId = lit ''k2''\<rparr>
             \<notin> set (map KeyRecord.keyId (keys acme))"
    by (simp add: acme_def lit_def)
  show ?thesis
    using h removeKey_absent_key [OF h] by (rule conjI)
qed

text \<open>
  C1. A failed import should leave the wallet alone and never reach
  \<^verbatim>\<open>save\<close>. The entry point discards the result of
  \<^verbatim>\<open>wallet.importKey\<close> and saves the object in every case. With a wallet
  method that reports failure and changes nothing, the call still writes the wallet
  back, and no revert reports the failure.
\<close>

theorem importKey_saves_after_failed_import:
  "importKey Wallet_importKey (Some wallet) input
     = [Load,
        Save (snd (Wallet_importKey wallet (ImportKeyInput.description input)
                     (KeyInput.format (ImportKeyInput.key input))
                     (KeyInput.keyData (ImportKeyInput.key input))
                     (KeyInput.algorithm (ImportKeyInput.key input))
                     (KeyInput.extractable (ImportKeyInput.key input))
                     (KeyInput.usages (ImportKeyInput.key input))))]
   \<and> importKey (\<lambda>w desc fmt encoded algo extr uses. (False, w)) (Some acme)
         \<lparr>ImportKeyInput.description = lit ''imported'',
          key = \<lparr>format = lit ''raw'', keyData = lit ''aGVsbG8A'',
                 KeyInput.algorithm = lit ''ECDSA'', KeyInput.extractable = False,
                 KeyInput.usages = [lit ''sign'']\<rparr>\<rparr>
       = [Load, Save acme]
   \<and> reverts [Load, Save acme] = []"
  by (simp add: importKey_def Let_def split: prod.split)

section \<open>Verifying a token\<close>

text \<open>
  C4. A token that does not split into exactly three segments is rejected with
  "Invalid JWT format", and that revert is the only effect of the call: the wallet is
  not loaded, nothing is decoded and \<^verbatim>\<open>wallet.verify\<close> is not called.
\<close>

theorem checkJWT_format_error:
  "length (split dot (JWTCheckInput.jwt input)) \<noteq> 3 \<Longrightarrow>
   checkJWT decode Wallet_verify slot input = [Revert (lit ''Invalid JWT format'')]"
  by (simp add: checkJWT_def)

theorem checkJWT_format_error_witness:
  "length (split dot (JWTCheckInput.jwt \<lparr>JWTCheckInput.keyId = lit ''k1'', jwt = lit ''a.b''\<rparr>)) \<noteq> 3 \<and>
   checkJWT base64_decode_checked (\<lambda>w k m s. True) (Some ()) \<lparr>JWTCheckInput.keyId = lit ''k1'', jwt = lit ''a.b''\<rparr>
     = [Revert (lit ''Invalid JWT format'')]"
proof -
  have h: "length (split dot (JWTCheckInput.jwt \<lparr>JWTCheckInput.keyId = lit ''k1'', jwt = lit ''a.b''\<rparr>)) \<noteq> 3"
    by (simp add: lit_def dot_def)
  show ?thesis
    using h checkJWT_format_error [OF h] by (rule conjI)
qed

text \<open>
  C10. The outcome of \<^verbatim>\<open>checkJWT\<close> is decided by three facts: whether
  the token has three segments, whether \<^verbatim>\<open>decode\<close> returns on the header
  and payload segments or aborts the call, and what the wallet's verification of the raw
  segments returns. Two calls that agree on the three have the same outcome, whatever
  the decoders, the tokens, the keys and the wallets of the two calls are: the bytes that
  are decoded, their UTF-8 decoding and the stripping of the backslash reach the emitted
  messages only. The segment count and the verification alone do not decide the
  outcome: of two tokens with three segments whose signature the wallet verifies, one is
  accepted and the other, with a header segment of one character, aborts in
  \<^verbatim>\<open>decode\<close>.
\<close>

theorem checkJWT_outcome_determined:
  "well_formed i1 = well_formed i2 \<Longrightarrow>
   decodes d1 i1 = decodes d2 i2 \<Longrightarrow>
   verified V1 s1 i1 = verified V2 s2 i2 \<Longrightarrow>
   verdict (checkJWT d1 V1 s1 i1) = verdict (checkJWT d2 V2 s2 i2)"
  by (cases s1; cases s2)
     (auto simp add: checkJWT_decides well_formed_def decodes_def verified_def Let_def
        split: if_splits)

theorem checkJWT_outcome_determined_witness:
  "well_formed \<lparr>JWTCheckInput.keyId = lit ''k1'',
                 jwt = lit ''eyJhbGciOiJFQ0RTQSJ9AA==.aGVsbG8A.c2lnbmVk''\<rparr>
     = well_formed \<lparr>JWTCheckInput.keyId = lit ''k1'', jwt = lit ''x.y.c2lnbmVk''\<rparr>
   \<and> decodes base64_decode_checked
         \<lparr>JWTCheckInput.keyId = lit ''k1'',
          jwt = lit ''eyJhbGciOiJFQ0RTQSJ9AA==.aGVsbG8A.c2lnbmVk''\<rparr>
       = decodes (\<lambda>s. Some [])
           \<lparr>JWTCheckInput.keyId = lit ''k1'', jwt = lit ''x.y.c2lnbmVk''\<rparr>
   \<and> verified example_verify (Some acme)
         \<lparr>JWTCheckInput.keyId = lit ''k1'',
          jwt = lit ''eyJhbGciOiJFQ0RTQSJ9AA==.aGVsbG8A.c2lnbmVk''\<rparr>
       = verified example_verify (Some acme)
           \<lparr>JWTCheckInput.keyId = lit ''k1'', jwt = lit ''x.y.c2lnbmVk''\<rparr>
   \<and> verdict (checkJWT base64_decode_checked example_verify (Some acme)
                \<lparr>JWTCheckInput.keyId = lit ''k1'',
                 jwt = lit ''eyJhbGciOiJFQ0RTQSJ9AA==.aGVsbG8A.c2lnbmVk''\<rparr>)
       = verdict (checkJWT (\<lambda>s. Some []) example_verify (Some acme)
                    \<lparr>JWTCheckInput.keyId = lit ''k1'', jwt = lit ''x.y.c2lnbmVk''\<rparr>)"
proof -
  let ?i1 = "\<lparr>JWTCheckInput.keyId = lit ''k1'',
               jwt = lit ''eyJhbGciOiJFQ0RTQSJ9AA==.aGVsbG8A.c2lnbmVk''\<rparr>"
  let ?i2 = "\<lparr>JWTCheckInput.keyId = lit ''k1'', jwt = lit ''x.y.c2lnbmVk''\<rparr>"
  have h1: "well_formed ?i1 = well_formed ?i2"
    by (simp add: well_formed_def lit_def dot_def)
  have h2: "decodes base64_decode_checked ?i1 = decodes (\<lambda>s. Some []) ?i2"
    by (simp add: decodes_def base64_decode_checked_def lit_def dot_def)
  have h3: "verified example_verify (Some acme) ?i1 = verified example_verify (Some acme) ?i2"
    by (simp add: verified_def example_verify_def example_sign_def acme_def lit_def dot_def)
  show ?thesis
    using h1 h2 h3 checkJWT_outcome_determined [OF h1 h2 h3]
    by (intro conjI)
qed

theorem checkJWT_outcome_counterexample:
  "well_formed \<lparr>JWTCheckInput.keyId = lit ''k1'',
                 jwt = lit ''eyJhbGciOiJFQ0RTQSJ9AA==.aGVsbG8A.c2lnbmVk''\<rparr>
     = well_formed \<lparr>JWTCheckInput.keyId = lit ''k1'', jwt = lit ''x.y.c2lnbmVk''\<rparr>
   \<and> verified example_verify (Some acme)
         \<lparr>JWTCheckInput.keyId = lit ''k1'',
          jwt = lit ''eyJhbGciOiJFQ0RTQSJ9AA==.aGVsbG8A.c2lnbmVk''\<rparr>
       = Some True
   \<and> verified example_verify (Some acme)
         \<lparr>JWTCheckInput.keyId = lit ''k1'', jwt = lit ''x.y.c2lnbmVk''\<rparr>
       = Some True
   \<and> verdict (checkJWT base64_decode_checked example_verify (Some acme)
                \<lparr>JWTCheckInput.keyId = lit ''k1'',
                 jwt = lit ''eyJhbGciOiJFQ0RTQSJ9AA==.aGVsbG8A.c2lnbmVk''\<rparr>)
       = Accepted
   \<and> checkJWT base64_decode_checked example_verify (Some acme)
         \<lparr>JWTCheckInput.keyId = lit ''k1'', jwt = lit ''x.y.c2lnbmVk''\<rparr>
       = [Load, Decode (lit ''x''), Abort]
   \<and> verdict (checkJWT base64_decode_checked example_verify (Some acme)
                \<lparr>JWTCheckInput.keyId = lit ''k1'', jwt = lit ''x.y.c2lnbmVk''\<rparr>)
       = Aborted"
proof -
  let ?i1 = "\<lparr>JWTCheckInput.keyId = lit ''k1'',
               jwt = lit ''eyJhbGciOiJFQ0RTQSJ9AA==.aGVsbG8A.c2lnbmVk''\<rparr>"
  let ?i2 = "\<lparr>JWTCheckInput.keyId = lit ''k1'', jwt = lit ''x.y.c2lnbmVk''\<rparr>"
  have s1: "split dot (lit ''eyJhbGciOiJFQ0RTQSJ9AA==.aGVsbG8A.c2lnbmVk'')
              = [lit ''eyJhbGciOiJFQ0RTQSJ9AA=='', lit ''aGVsbG8A'', lit ''c2lnbmVk'']"
    by (simp add: lit_def dot_def)
  have s2: "split dot (lit ''x.y.c2lnbmVk'') = [lit ''x'', lit ''y'', lit ''c2lnbmVk'']"
    by (simp add: lit_def dot_def)
  have d1: "base64_decode_checked (lit ''eyJhbGciOiJFQ0RTQSJ9AA=='') \<noteq> None"
    "base64_decode_checked (lit ''aGVsbG8A'') \<noteq> None"
    by (simp_all add: base64_decode_checked_def lit_def)
  have d2: "base64_decode_checked (lit ''x'') = None"
    by (simp add: base64_decode_checked_def lit_def)
  have v: "example_verify acme (lit ''k1'') msg (lit ''c2lnbmVk'')" for msg
    by (simp add: example_verify_def example_sign_def acme_def lit_def)
  have a: "well_formed ?i1 = well_formed ?i2"
    by (simp add: well_formed_def s1 s2)
  have b: "verified example_verify (Some acme) ?i1 = Some True"
    "verified example_verify (Some acme) ?i2 = Some True"
    by (simp_all add: verified_def s1 s2 v)
  have c: "verdict (checkJWT base64_decode_checked example_verify (Some acme) ?i1) = Accepted"
    using d1 by (auto simp add: checkJWT_decides s1 v Let_def)
  have d: "checkJWT base64_decode_checked example_verify (Some acme) ?i2
             = [Load, Decode (lit ''x''), Abort]"
    by (simp add: checkJWT_def s2 d2)
  have e: "verdict (checkJWT base64_decode_checked example_verify (Some acme) ?i2) = Aborted"
    by (simp add: checkJWT_decides s2 d2 Let_def)
  show ?thesis
    using a b c d e by (intro conjI)
qed

section \<open>Building a token\<close>

text \<open>
  C2. When signing succeeds, and the base64 segments and the signature contain no dot,
  the emitted token has exactly two dots. Its second segment is the encoding of the
  payload with a null terminator: where the decoder inverts the encoder on these bytes,
  base64-decoding the segment gives the UTF-8 bytes of the payload up to its first zero
  code unit followed by a zero byte, and decoding these as null-terminated UTF-8, as
  \<^verbatim>\<open>checkJWT\<close> does, gives the payload up to its first zero code unit:
  the payload itself when it contains none. For a payload with a zero code unit inside,
  neither way of decoding gives the payload back, as the run on the payload
  \<open>[97, 0, 98]\<close> shows.
\<close>

theorem generateJWT_payload_segment:
  assumes sign: "Wallet_sign wallet k (jwtPayload stringify encode p) = Some sig"
    and dots: "dot \<notin> set (headerB64 stringify encode)" "dot \<notin> set (payloadB64 encode p)"
      "dot \<notin> set sig"
    and codec: "decode (encode (UTF8_encode p True)) = UTF8_encode p True"
  shows "generateJWT stringify encode Wallet_sign (Some wallet)
            \<lparr>JWTGenerateInput.keyId = k, payload = p\<rparr>
          = [Load,
             Emit (lit ''Generating JWT: '' @ jwtPayload stringify encode p
                     @ lit '' - with key: '' @ k),
             Sign k (jwtPayload stringify encode p),
             Emit (lit ''JWT generated: '' @ (jwtPayload stringify encode p @ lit ''.'' @ sig))]
     \<and> count_list (jwtPayload stringify encode p @ lit ''.'' @ sig) dot = 2
     \<and> decode (split dot (jwtPayload stringify encode p @ lit ''.'' @ sig) ! 1)
         = UTF8_encode (takeWhile (\<lambda>c. c \<noteq> 0) p) False @ [0]
     \<and> UTF8_decode (decode (split dot (jwtPayload stringify encode p @ lit ''.'' @ sig) ! 1)) True
         = takeWhile (\<lambda>c. c \<noteq> 0) p
     \<and> (0 \<notin> set p \<longrightarrow>
          UTF8_decode (decode (split dot (jwtPayload stringify encode p @ lit ''.'' @ sig) ! 1))
            True = p)"
proof -
  let ?t = "jwtPayload stringify encode p @ lit ''.'' @ sig"
  have s: "split dot ?t = [headerB64 stringify encode, payloadB64 encode p, sig]"
    using dots split_three [of "headerB64 stringify encode" "payloadB64 encode p" sig]
    by (simp add: jwtPayload_def)
  have "length (split dot ?t) = Suc (count_list ?t dot)"
    by (rule length_split)
  then have two: "count_list ?t dot = 2"
    by (simp only: s) simp
  have seg: "decode (split dot ?t ! 1) = UTF8_encode p True"
    by (simp add: s payloadB64_def codec)
  have cut: "0 \<notin> set p \<Longrightarrow> takeWhile (\<lambda>c. c \<noteq> 0) p = p"
    by (rule takeWhile_eq_all_conv [THEN iffD2]) auto
  show ?thesis
    using generateJWT_signed [of Wallet_sign wallet k stringify encode p sig, OF sign] two cut
    by (simp only: seg UTF8_decode_terminated UTF8_encode_terminated [symmetric]) simp
qed

theorem generateJWT_payload_segment_witness:
  "example_sign acme (lit ''k1'') (jwtPayload JSON_stringify base64_encode (lit ''hello''))
     = Some (lit ''c2lnbmVk'')
   \<and> dot \<notin> set (headerB64 JSON_stringify base64_encode)
   \<and> dot \<notin> set (payloadB64 base64_encode (lit ''hello''))
   \<and> dot \<notin> set (lit ''c2lnbmVk'')
   \<and> base64_decode (base64_encode (UTF8_encode (lit ''hello'') True))
       = UTF8_encode (lit ''hello'') True
   \<and> count_list (jwtPayload JSON_stringify base64_encode (lit ''hello'')
                    @ lit ''.'' @ lit ''c2lnbmVk'') dot = 2
   \<and> 0 \<notin> set (lit ''hello'')
   \<and> UTF8_decode
         (base64_decode
            (split dot (jwtPayload JSON_stringify base64_encode (lit ''hello'')
                          @ lit ''.'' @ lit ''c2lnbmVk'') ! 1))
         True
       = lit ''hello''"
proof -
  have h1: "example_sign acme (lit ''k1'') (jwtPayload JSON_stringify base64_encode (lit ''hello''))
     = Some (lit ''c2lnbmVk'')"
    by (rule example_signature)
  have h2: "dot \<notin> set (headerB64 JSON_stringify base64_encode)"
    unfolding example_header by (simp add: lit_def dot_def)
  have h3: "dot \<notin> set (payloadB64 base64_encode (lit ''hello''))"
    unfolding example_payload by (simp add: lit_def dot_def)
  have h4: "dot \<notin> set (lit ''c2lnbmVk'')"
    by (simp add: lit_def dot_def)
  have h5: "base64_decode (base64_encode (UTF8_encode (lit ''hello'') True))
       = UTF8_encode (lit ''hello'') True"
    by (simp add: run_defs)
  have h6: "0 \<notin> set (lit ''hello'')"
    by (simp add: lit_def)
  show ?thesis
    using h1 h2 h3 h4 h5 h6
      generateJWT_payload_segment
        [of example_sign acme "lit ''k1''" JSON_stringify base64_encode "lit ''hello''"
            "lit ''c2lnbmVk''" base64_decode, OF h1 h2 h3 h4 h5]
    by blast
qed

theorem generateJWT_payload_counterexample:
  "generateJWT JSON_stringify base64_encode example_sign (Some acme)
       \<lparr>JWTGenerateInput.keyId = lit ''k1'', payload = [97, 0, 98]\<rparr>
     = [Load,
        Emit (lit ''Generating JWT: eyJhbGciOiJFQ0RTQSJ9AA==.YQA= - with key: k1''),
        Sign (lit ''k1'') (lit ''eyJhbGciOiJFQ0RTQSJ9AA==.YQA=''),
        Emit (lit ''JWT generated: eyJhbGciOiJFQ0RTQSJ9AA==.YQA=.c2lnbmVk'')]
   \<and> split dot (lit ''eyJhbGciOiJFQ0RTQSJ9AA==.YQA=.c2lnbmVk'') ! 1 = lit ''YQA=''
   \<and> UTF8_decode (base64_decode (lit ''YQA='')) True = [97]
   \<and> UTF8_decode (base64_decode (lit ''YQA='')) False = [97, 0]
   \<and> UTF8_decode (base64_decode (lit ''YQA='')) True \<noteq> [97, 0, 98]
   \<and> UTF8_decode (base64_decode (lit ''YQA='')) False \<noteq> [97, 0, 98]"
proof -
  have p: "payloadB64 base64_encode [97, 0, 98] = lit ''YQA=''"
    by (simp add: run_defs)
  have j: "jwtPayload JSON_stringify base64_encode [97, 0, 98]
             = lit ''eyJhbGciOiJFQ0RTQSJ9AA==.YQA=''"
    unfolding jwtPayload_def example_header p by (simp add: lit_def)
  have g: "generateJWT JSON_stringify base64_encode example_sign (Some acme)
       \<lparr>JWTGenerateInput.keyId = lit ''k1'', payload = [97, 0, 98]\<rparr>
     = [Load,
        Emit (lit ''Generating JWT: eyJhbGciOiJFQ0RTQSJ9AA==.YQA= - with key: k1''),
        Sign (lit ''k1'') (lit ''eyJhbGciOiJFQ0RTQSJ9AA==.YQA=''),
        Emit (lit ''JWT generated: eyJhbGciOiJFQ0RTQSJ9AA==.YQA=.c2lnbmVk'')]"
    unfolding generateJWT_signed
        [of example_sign acme "lit ''k1''" JSON_stringify base64_encode "[97, 0, 98]"
            "lit ''c2lnbmVk''", OF example_signature] j
    by (simp add: lit_def)
  have s: "split dot (lit ''eyJhbGciOiJFQ0RTQSJ9AA==.YQA=.c2lnbmVk'') ! 1 = lit ''YQA=''"
    by (simp add: lit_def dot_def)
  have d1: "UTF8_decode (base64_decode (lit ''YQA='')) True = [97]"
    by (simp add: run_defs)
  have d2: "UTF8_decode (base64_decode (lit ''YQA='')) False = [97, 0]"
    by (simp add: run_defs)
  show ?thesis
    unfolding d1 d2 using g s by simp
qed

text \<open>
  C8. The token that \<^verbatim>\<open>generateJWT\<close> emits carries the algorithm tag
  "ECDSA" for every wallet, key and payload: where the decoder inverts the encoder on
  the header bytes, decoding the first segment of the token gives the serialised header
  whose algorithm is "ECDSA". And \<^verbatim>\<open>checkJWT\<close> accepts a token with any
  header segment that decodes, whatever it decodes to, as soon as the payload segment
  decodes and the wallet verifies the signature over the raw segments: the decoded
  header is never compared with the key.
\<close>

theorem header_fixed_and_unchecked:
  "(Wallet_sign wallet k (jwtPayload stringify encode p) = Some sig
      \<and> dot \<notin> set (headerB64 stringify encode)
      \<and> decode (encode (UTF8_encode (stringify \<lparr>alg = lit ''ECDSA''\<rparr>) True))
          = Some (UTF8_encode (stringify \<lparr>alg = lit ''ECDSA''\<rparr>) True)
      \<and> 0 \<notin> set (stringify \<lparr>alg = lit ''ECDSA''\<rparr>)
    \<longrightarrow> generateJWT stringify encode Wallet_sign (Some wallet)
            \<lparr>JWTGenerateInput.keyId = k, payload = p\<rparr>
          = [Load,
             Emit (lit ''Generating JWT: '' @ jwtPayload stringify encode p
                     @ lit '' - with key: '' @ k),
             Sign k (jwtPayload stringify encode p),
             Emit (lit ''JWT generated: '' @ (jwtPayload stringify encode p @ lit ''.'' @ sig))]
        \<and> map_option (\<lambda>b. UTF8_decode b True)
              (decode (split dot (jwtPayload stringify encode p @ lit ''.'' @ sig) ! 0))
            = Some (stringify \<lparr>alg = lit ''ECDSA''\<rparr>))
   \<and> (dot \<notin> set h \<and> dot \<notin> set q \<and> dot \<notin> set s
          \<and> decode' h \<noteq> None \<and> decode' q \<noteq> None
          \<and> Wallet_verify wallet' k' (h @ lit ''.'' @ q) s
        \<longrightarrow> verdict (checkJWT decode' Wallet_verify (Some wallet')
                       \<lparr>JWTCheckInput.keyId = k', jwt = h @ lit ''.'' @ q @ lit ''.'' @ s\<rparr>)
              = Accepted)"
proof (intro conjI impI)
  assume a: "Wallet_sign wallet k (jwtPayload stringify encode p) = Some sig
      \<and> dot \<notin> set (headerB64 stringify encode)
      \<and> decode (encode (UTF8_encode (stringify \<lparr>alg = lit ''ECDSA''\<rparr>) True))
          = Some (UTF8_encode (stringify \<lparr>alg = lit ''ECDSA''\<rparr>) True)
      \<and> 0 \<notin> set (stringify \<lparr>alg = lit ''ECDSA''\<rparr>)"
  from a have sign: "Wallet_sign wallet k (jwtPayload stringify encode p) = Some sig"
    by blast
  show "generateJWT stringify encode Wallet_sign (Some wallet)
            \<lparr>JWTGenerateInput.keyId = k, payload = p\<rparr>
          = [Load,
             Emit (lit ''Generating JWT: '' @ jwtPayload stringify encode p
                     @ lit '' - with key: '' @ k),
             Sign k (jwtPayload stringify encode p),
             Emit (lit ''JWT generated: '' @ (jwtPayload stringify encode p @ lit ''.'' @ sig))]"
    by (rule generateJWT_signed [of Wallet_sign wallet k stringify encode p sig, OF sign])
  have seg0: "split dot (jwtPayload stringify encode p @ lit ''.'' @ sig) ! 0
                 = headerB64 stringify encode"
    using a split_first [of "headerB64 stringify encode" "payloadB64 encode p @ lit ''.'' @ sig"]
    by (simp add: jwtPayload_def)
  have hdr: "headerB64 stringify encode
               = encode (UTF8_encode (stringify \<lparr>alg = lit ''ECDSA''\<rparr>) True)"
    by (simp add: headerB64_def header_def)
  have rt: "UTF8_decode (UTF8_encode (stringify \<lparr>alg = lit ''ECDSA''\<rparr>) True) True
                = stringify \<lparr>alg = lit ''ECDSA''\<rparr>"
    using a by (simp add: UTF8_decode_terminated cut_all)
  show "map_option (\<lambda>b. UTF8_decode b True)
              (decode (split dot (jwtPayload stringify encode p @ lit ''.'' @ sig) ! 0))
            = Some (stringify \<lparr>alg = lit ''ECDSA''\<rparr>)"
    using a by (simp add: seg0 hdr rt)
next
  assume b: "dot \<notin> set h \<and> dot \<notin> set q \<and> dot \<notin> set s
          \<and> decode' h \<noteq> None \<and> decode' q \<noteq> None
          \<and> Wallet_verify wallet' k' (h @ lit ''.'' @ q) s"
  then have s3: "split dot (h @ lit ''.'' @ q @ lit ''.'' @ s) = [h, q, s]"
    by (simp add: split_three)
  show "verdict (checkJWT decode' Wallet_verify (Some wallet')
                       \<lparr>JWTCheckInput.keyId = k', jwt = h @ lit ''.'' @ q @ lit ''.'' @ s\<rparr>)
              = Accepted"
    using b by (auto simp add: checkJWT_decides s3 Let_def)
qed

theorem header_fixed_and_unchecked_witness:
  "map KeyRecord.algorithm (keys rsa_wallet) = [lit ''RSA-PSS'']
   \<and> generateJWT JSON_stringify base64_encode example_sign (Some rsa_wallet)
         \<lparr>JWTGenerateInput.keyId = lit ''r1'', payload = lit ''hello''\<rparr>
       = [Load,
          Emit (lit ''Generating JWT: '' @ jwtPayload JSON_stringify base64_encode (lit ''hello'')
                  @ lit '' - with key: '' @ lit ''r1''),
          Sign (lit ''r1'') (jwtPayload JSON_stringify base64_encode (lit ''hello'')),
          Emit (lit ''JWT generated: ''
                  @ (jwtPayload JSON_stringify base64_encode (lit ''hello'')
                       @ lit ''.'' @ lit ''c2lnbmVk''))]
   \<and> jwtPayload JSON_stringify base64_encode (lit ''hello'') @ lit ''.'' @ lit ''c2lnbmVk''
       = lit ''eyJhbGciOiJFQ0RTQSJ9AA==.aGVsbG8A.c2lnbmVk''
   \<and> map_option (\<lambda>b. UTF8_decode b True)
         (base64_decode_checked
            (split dot (jwtPayload JSON_stringify base64_encode (lit ''hello'')
                          @ lit ''.'' @ lit ''c2lnbmVk'') ! 0))
       = Some (JSON_stringify \<lparr>alg = lit ''ECDSA''\<rparr>)
   \<and> JSON_stringify \<lparr>alg = lit ''ECDSA''\<rparr>
       = [123, 34, 97, 108, 103, 34, 58, 34, 69, 67, 68, 83, 65, 34, 125]
   \<and> map KeyRecord.algorithm (keys acme) = [lit ''ECDSA'']
   \<and> map_option (\<lambda>b. UTF8_decode b True)
         (base64_decode_checked (lit ''eyJhbGciOiJSU0EtUFNTIn0A''))
       = Some (JSON_stringify \<lparr>alg = lit ''RSA-PSS''\<rparr>)
   \<and> verdict (checkJWT base64_decode_checked example_verify (Some acme)
                \<lparr>JWTCheckInput.keyId = lit ''k1'',
                 jwt = lit ''eyJhbGciOiJSU0EtUFNTIn0A'' @ lit ''.'' @ lit ''aGVsbG8A''
                         @ lit ''.'' @ lit ''c2lnbmVk''\<rparr>)
       = Accepted"
proof -
  note inst = header_fixed_and_unchecked
    [of example_sign rsa_wallet "lit ''r1''" JSON_stringify base64_encode "lit ''hello''"
        "lit ''c2lnbmVk''" base64_decode_checked
        "lit ''eyJhbGciOiJSU0EtUFNTIn0A''" "lit ''aGVsbG8A''" "lit ''c2lnbmVk''"
        base64_decode_checked example_verify acme "lit ''k1''"]
  have g1: "example_sign rsa_wallet (lit ''r1'')
              (jwtPayload JSON_stringify base64_encode (lit ''hello'')) = Some (lit ''c2lnbmVk'')"
    by (simp add: example_sign_def rsa_wallet_def lit_def)
  have g2: "dot \<notin> set (headerB64 JSON_stringify base64_encode)"
    unfolding example_header by (simp add: lit_def dot_def)
  have g3: "base64_decode_checked
              (base64_encode (UTF8_encode (JSON_stringify \<lparr>alg = lit ''ECDSA''\<rparr>) True))
            = Some (UTF8_encode (JSON_stringify \<lparr>alg = lit ''ECDSA''\<rparr>) True)"
    by (simp add: base64_decode_checked_def run_defs)
  have g4: "0 \<notin> set (JSON_stringify \<lparr>alg = lit ''ECDSA''\<rparr>)"
    by (simp add: JSON_stringify_def lit_def)
  have p1: "generateJWT JSON_stringify base64_encode example_sign (Some rsa_wallet)
         \<lparr>JWTGenerateInput.keyId = lit ''r1'', payload = lit ''hello''\<rparr>
       = [Load,
          Emit (lit ''Generating JWT: '' @ jwtPayload JSON_stringify base64_encode (lit ''hello'')
                  @ lit '' - with key: '' @ lit ''r1''),
          Sign (lit ''r1'') (jwtPayload JSON_stringify base64_encode (lit ''hello'')),
          Emit (lit ''JWT generated: ''
                  @ (jwtPayload JSON_stringify base64_encode (lit ''hello'')
                       @ lit ''.'' @ lit ''c2lnbmVk''))]
     \<and> map_option (\<lambda>b. UTF8_decode b True)
         (base64_decode_checked
            (split dot (jwtPayload JSON_stringify base64_encode (lit ''hello'')
                          @ lit ''.'' @ lit ''c2lnbmVk'') ! 0))
       = Some (JSON_stringify \<lparr>alg = lit ''ECDSA''\<rparr>)"
    using inst g1 g2 g3 g4 by blast
  have t: "jwtPayload JSON_stringify base64_encode (lit ''hello'') @ lit ''.'' @ lit ''c2lnbmVk''
       = lit ''eyJhbGciOiJFQ0RTQSJ9AA==.aGVsbG8A.c2lnbmVk''"
    unfolding example_signing_input by (simp add: lit_def)
  have j: "JSON_stringify \<lparr>alg = lit ''ECDSA''\<rparr>
       = [123, 34, 97, 108, 103, 34, 58, 34, 69, 67, 68, 83, 65, 34, 125]"
    by (simp add: JSON_stringify_def lit_def)
  have a1: "map KeyRecord.algorithm (keys rsa_wallet) = [lit ''RSA-PSS'']"
    by (simp add: rsa_wallet_def)
  have a2: "map KeyRecord.algorithm (keys acme) = [lit ''ECDSA'']"
    by (simp add: acme_def)
  have h: "dot \<notin> set (lit ''eyJhbGciOiJSU0EtUFNTIn0A'') \<and> dot \<notin> set (lit ''aGVsbG8A'')
      \<and> dot \<notin> set (lit ''c2lnbmVk'')
      \<and> base64_decode_checked (lit ''eyJhbGciOiJSU0EtUFNTIn0A'') \<noteq> None
      \<and> base64_decode_checked (lit ''aGVsbG8A'') \<noteq> None
      \<and> example_verify acme (lit ''k1'')
           (lit ''eyJhbGciOiJSU0EtUFNTIn0A'' @ lit ''.'' @ lit ''aGVsbG8A'') (lit ''c2lnbmVk'')"
    by (simp add: base64_decode_checked_def example_verify_def example_sign_def acme_def
          lit_def dot_def)
  have p2: "verdict (checkJWT base64_decode_checked example_verify (Some acme)
                \<lparr>JWTCheckInput.keyId = lit ''k1'',
                 jwt = lit ''eyJhbGciOiJSU0EtUFNTIn0A'' @ lit ''.'' @ lit ''aGVsbG8A''
                         @ lit ''.'' @ lit ''c2lnbmVk''\<rparr>)
       = Accepted"
    using inst h by blast
  show ?thesis
    using a1 a2 p1 t j other_header_decoded p2 by (intro conjI) blast+
qed

text \<open>
  C5. Round trip. If signing succeeds, verification accepts the signature that signing
  returned for the same bytes, neither the two base64 segments nor the signature contain
  a dot, and \<^verbatim>\<open>decode\<close> returns on the two segments, then the token emitted
  by \<^verbatim>\<open>generateJWT\<close> is accepted by \<^verbatim>\<open>checkJWT\<close> with the same
  key. And \<^verbatim>\<open>checkJWT\<close> is rejected with "Invalid JWT signature" exactly
  when the token has three segments, a wallet exists, \<^verbatim>\<open>decode\<close> returns on
  the header and payload segments, and the wallet's verification of the first two raw
  segments against the third returns false. Without the condition on
  \<^verbatim>\<open>decode\<close> the equivalence fails: on the token \<open>x.y.z\<close> the
  verification of the raw segments is false, and the call aborts in
  \<^verbatim>\<open>decode\<close> before it is asked.
\<close>

theorem token_round_trip:
  "(Wallet_sign wallet k (jwtPayload stringify encode p) = Some sig
      \<and> Wallet_verify wallet k (jwtPayload stringify encode p) sig
      \<and> dot \<notin> set (headerB64 stringify encode)
      \<and> dot \<notin> set (payloadB64 encode p)
      \<and> dot \<notin> set sig
      \<and> decode (headerB64 stringify encode) \<noteq> None
      \<and> decode (payloadB64 encode p) \<noteq> None
    \<longrightarrow> generateJWT stringify encode Wallet_sign (Some wallet)
            \<lparr>JWTGenerateInput.keyId = k, payload = p\<rparr>
          = [Load,
             Emit (lit ''Generating JWT: '' @ jwtPayload stringify encode p
                     @ lit '' - with key: '' @ k),
             Sign k (jwtPayload stringify encode p),
             Emit (lit ''JWT generated: '' @ (jwtPayload stringify encode p @ lit ''.'' @ sig))]
        \<and> verdict (checkJWT decode Wallet_verify (Some wallet)
                     \<lparr>JWTCheckInput.keyId = k,
                      jwt = jwtPayload stringify encode p @ lit ''.'' @ sig\<rparr>)
            = Accepted)
   \<and> (verdict (checkJWT decode Wallet_verify slot input) = Rejected (lit ''Invalid JWT signature'')
        \<longleftrightarrow> well_formed input \<and> decodes decode input
              \<and> verified Wallet_verify slot input = Some False)"
proof (intro conjI impI)
  assume a: "Wallet_sign wallet k (jwtPayload stringify encode p) = Some sig
      \<and> Wallet_verify wallet k (jwtPayload stringify encode p) sig
      \<and> dot \<notin> set (headerB64 stringify encode)
      \<and> dot \<notin> set (payloadB64 encode p)
      \<and> dot \<notin> set sig
      \<and> decode (headerB64 stringify encode) \<noteq> None
      \<and> decode (payloadB64 encode p) \<noteq> None"
  from a have sign: "Wallet_sign wallet k (jwtPayload stringify encode p) = Some sig"
    by blast
  show "generateJWT stringify encode Wallet_sign (Some wallet)
            \<lparr>JWTGenerateInput.keyId = k, payload = p\<rparr>
          = [Load,
             Emit (lit ''Generating JWT: '' @ jwtPayload stringify encode p
                     @ lit '' - with key: '' @ k),
             Sign k (jwtPayload stringify encode p),
             Emit (lit ''JWT generated: '' @ (jwtPayload stringify encode p @ lit ''.'' @ sig))]"
    by (rule generateJWT_signed [of Wallet_sign wallet k stringify encode p sig, OF sign])
  have v: "Wallet_verify wallet k (jwtPayload stringify encode p) sig"
    using a by blast
  have s: "split dot (jwtPayload stringify encode p @ lit ''.'' @ sig)
             = [headerB64 stringify encode, payloadB64 encode p, sig]"
    using a split_three [of "headerB64 stringify encode" "payloadB64 encode p" sig]
    by (simp add: jwtPayload_def)
  have "Wallet_verify wallet k
          (headerB64 stringify encode @ lit ''.'' @ payloadB64 encode p) sig"
    using v by (simp add: jwtPayload_def)
  then show "verdict (checkJWT decode Wallet_verify (Some wallet)
                     \<lparr>JWTCheckInput.keyId = k,
                      jwt = jwtPayload stringify encode p @ lit ''.'' @ sig\<rparr>)
            = Accepted"
    using a by (auto simp add: checkJWT_decides s Let_def)
next
  have ne: "lit ''Invalid JWT format'' \<noteq> lit ''Invalid JWT signature''"
    by (simp add: lit_def)
  show "verdict (checkJWT decode Wallet_verify slot input) = Rejected (lit ''Invalid JWT signature'')
        \<longleftrightarrow> well_formed input \<and> decodes decode input
              \<and> verified Wallet_verify slot input = Some False"
    by (cases slot)
       (auto simp add: checkJWT_decides well_formed_def decodes_def verified_def Let_def ne
          split: if_splits)
qed

theorem token_round_trip_witness:
  "example_sign acme (lit ''k1'') (jwtPayload JSON_stringify base64_encode (lit ''hello''))
     = Some (lit ''c2lnbmVk'')
   \<and> example_verify acme (lit ''k1'')
         (jwtPayload JSON_stringify base64_encode (lit ''hello'')) (lit ''c2lnbmVk'')
   \<and> dot \<notin> set (headerB64 JSON_stringify base64_encode)
   \<and> dot \<notin> set (payloadB64 base64_encode (lit ''hello''))
   \<and> dot \<notin> set (lit ''c2lnbmVk'')
   \<and> base64_decode_checked (headerB64 JSON_stringify base64_encode) \<noteq> None
   \<and> base64_decode_checked (payloadB64 base64_encode (lit ''hello'')) \<noteq> None
   \<and> jwtPayload JSON_stringify base64_encode (lit ''hello'') @ lit ''.'' @ lit ''c2lnbmVk''
       = lit ''eyJhbGciOiJFQ0RTQSJ9AA==.aGVsbG8A.c2lnbmVk''
   \<and> generateJWT JSON_stringify base64_encode example_sign (Some acme)
         \<lparr>JWTGenerateInput.keyId = lit ''k1'', payload = lit ''hello''\<rparr>
       = [Load,
          Emit (lit ''Generating JWT: '' @ jwtPayload JSON_stringify base64_encode (lit ''hello'')
                  @ lit '' - with key: '' @ lit ''k1''),
          Sign (lit ''k1'') (jwtPayload JSON_stringify base64_encode (lit ''hello'')),
          Emit (lit ''JWT generated: ''
                  @ (jwtPayload JSON_stringify base64_encode (lit ''hello'')
                       @ lit ''.'' @ lit ''c2lnbmVk''))]
   \<and> verdict (checkJWT base64_decode_checked example_verify (Some acme)
                \<lparr>JWTCheckInput.keyId = lit ''k1'',
                 jwt = jwtPayload JSON_stringify base64_encode (lit ''hello'')
                         @ lit ''.'' @ lit ''c2lnbmVk''\<rparr>)
       = Accepted"
proof -
  have h: "example_sign acme (lit ''k1'') (jwtPayload JSON_stringify base64_encode (lit ''hello''))
       = Some (lit ''c2lnbmVk'')
     \<and> example_verify acme (lit ''k1'')
           (jwtPayload JSON_stringify base64_encode (lit ''hello'')) (lit ''c2lnbmVk'')
     \<and> dot \<notin> set (headerB64 JSON_stringify base64_encode)
     \<and> dot \<notin> set (payloadB64 base64_encode (lit ''hello''))
     \<and> dot \<notin> set (lit ''c2lnbmVk'')
     \<and> base64_decode_checked (headerB64 JSON_stringify base64_encode) \<noteq> None
     \<and> base64_decode_checked (payloadB64 base64_encode (lit ''hello'')) \<noteq> None"
    unfolding example_header example_payload
    by (simp add: example_signature example_verify_def)
       (simp add: base64_decode_checked_def lit_def dot_def)
  have t: "jwtPayload JSON_stringify base64_encode (lit ''hello'') @ lit ''.'' @ lit ''c2lnbmVk''
       = lit ''eyJhbGciOiJFQ0RTQSJ9AA==.aGVsbG8A.c2lnbmVk''"
    unfolding example_signing_input by (simp add: lit_def)
  have r: "generateJWT JSON_stringify base64_encode example_sign (Some acme)
         \<lparr>JWTGenerateInput.keyId = lit ''k1'', payload = lit ''hello''\<rparr>
       = [Load,
          Emit (lit ''Generating JWT: '' @ jwtPayload JSON_stringify base64_encode (lit ''hello'')
                  @ lit '' - with key: '' @ lit ''k1''),
          Sign (lit ''k1'') (jwtPayload JSON_stringify base64_encode (lit ''hello'')),
          Emit (lit ''JWT generated: ''
                  @ (jwtPayload JSON_stringify base64_encode (lit ''hello'')
                       @ lit ''.'' @ lit ''c2lnbmVk''))]
     \<and> verdict (checkJWT base64_decode_checked example_verify (Some acme)
                \<lparr>JWTCheckInput.keyId = lit ''k1'',
                 jwt = jwtPayload JSON_stringify base64_encode (lit ''hello'')
                         @ lit ''.'' @ lit ''c2lnbmVk''\<rparr>)
       = Accepted"
    using token_round_trip
      [of example_sign acme "lit ''k1''" JSON_stringify base64_encode "lit ''hello''"
          "lit ''c2lnbmVk''" example_verify base64_decode_checked] h
    by blast
  with h t show ?thesis by blast
qed

theorem invalid_signature_counterexample:
  "well_formed \<lparr>JWTCheckInput.keyId = lit ''k1'', jwt = lit ''x.y.z''\<rparr>
   \<and> verified example_verify (Some acme)
         \<lparr>JWTCheckInput.keyId = lit ''k1'', jwt = lit ''x.y.z''\<rparr>
       = Some False
   \<and> example_verify acme (lit ''k1'') (lit ''x'' @ lit ''.'' @ lit ''y'') (lit ''z'') = False
   \<and> checkJWT base64_decode_checked example_verify (Some acme)
         \<lparr>JWTCheckInput.keyId = lit ''k1'', jwt = lit ''x.y.z''\<rparr>
       = [Load, Decode (lit ''x''), Abort]
   \<and> verdict (checkJWT base64_decode_checked example_verify (Some acme)
                \<lparr>JWTCheckInput.keyId = lit ''k1'', jwt = lit ''x.y.z''\<rparr>)
       \<noteq> Rejected (lit ''Invalid JWT signature'')"
proof -
  let ?i = "\<lparr>JWTCheckInput.keyId = lit ''k1'', jwt = lit ''x.y.z''\<rparr>"
  have s: "split dot (lit ''x.y.z'') = [lit ''x'', lit ''y'', lit ''z'']"
    by (simp add: lit_def dot_def)
  have d: "base64_decode_checked (lit ''x'') = None"
    by (simp add: base64_decode_checked_def lit_def)
  have v: "example_verify acme (lit ''k1'') (lit ''x'' @ lit ''.'' @ lit ''y'') (lit ''z'') = False"
    by (simp add: example_verify_def example_sign_def acme_def lit_def)
  have a: "well_formed ?i"
    by (simp add: well_formed_def s)
  have b: "verified example_verify (Some acme) ?i = Some False"
    using v by (simp add: verified_def s)
  have c: "checkJWT base64_decode_checked example_verify (Some acme) ?i
             = [Load, Decode (lit ''x''), Abort]"
    by (simp add: checkJWT_def s d)
  have e: "verdict (checkJWT base64_decode_checked example_verify (Some acme) ?i)
             \<noteq> Rejected (lit ''Invalid JWT signature'')"
    unfolding c by (simp add: verdict_def)
  show ?thesis
    using a b v c e by (intro conjI)
qed

end
